theory Spec2Isabelle
  imports Main
begin

section \<open>Data of frontend/app.js\<close>

type_synonym month = string
type_synonym date = string
type_synonym hospital = string
type_synonym resident = string

text \<open>
  \<open>currentCfg\<close>: an object from hospital name to an object from key (an ISO date or a
  weekday digit) to a capacity. The outer object is an association list in the order of
  \<open>Object.keys\<close>; the capacities are the integers the configuration holds, on which
  \<open>Number(v) || 0\<close> is \<open>v\<close>.
\<close>

type_synonym hospcfg = "string \<rightharpoonup> int"
type_synonym config = "(hospital \<times> hospcfg) list"

text \<open>
  What the handlers take from the platform: \<open>new Date(d).getDay()\<close> (0 is Sunday, 6 is
  Saturday) and \<open>Number(text)\<close> on the text of an input field: \<open>Some n\<close> for a text
  that reads as the integer \<open>n\<close>, \<open>None\<close> for NaN. Counts and maxima are integers
  throughout.
\<close>

record platform =
  getDay :: "date \<Rightarrow> nat"
  toNumber :: "string \<Rightarrow> int option"

text \<open>
  A schedule as the backend sends it. A field that is absent reads as the empty list or
  the empty object at every use below. \<open>assignments[d]\<close> is an association list in the
  order of \<open>Object.keys\<close>.
\<close>

record schedule =
  dates :: "date list"
  hospitals :: "hospital list"
  assignments :: "date \<rightharpoonup> (hospital \<times> resident list) list"
  per_res_counts :: "resident \<rightharpoonup> int"

text \<open>An entry of \<open>scheduleCache\<close>: the sentinel \<open>{status:'error'}\<close> or a schedule.\<close>

datatype cached = ErrorSnapshot | Snapshot schedule

record resident_info =
  name :: resident
  rotation_type :: string
  ng_dates :: "date list"

record highlight =
  hl_name :: resident
  hl_month :: month
  hl_ng_dates :: "date list"

record dragmeta =
  dm_resident :: resident
  from_date :: date
  from_hospital :: "hospital option"

datatype change =
    Assign month date resident hospital
  | Unassign month date resident "hospital list"
  | Move month resident date "hospital option" date hospital

record app =
  currentCfg :: config
  scheduleCache :: "month \<rightharpoonup> cached"
  residentsCache :: "month \<rightharpoonup> resident_info list"
  residentHighlight :: "highlight option"
  currentDragMeta :: "dragmeta option"
  lastChanges :: "change list"

section \<open>Requests, replies and notices\<close>

text \<open>The \<open>max_assignments\<close> of a payload is \<open>None\<close> when the number is NaN.\<close>

datatype request =
    GetSchedule month
  | GetResidents month
  | GetIsHoliday date
  | PostAssign month date resident hospital "int option"
  | PostUnassign month date resident
  | PostMove month resident date "hospital option" date "hospital option" "int option"

text \<open>
  What comes back from one \<open>fetch\<close>: the call or the decoding of its body throws
  (\<open>Threw\<close>, with \<open>e.message\<close>), the status is not OK (\<open>NotOk\<close>, with the body text), or
  the status is OK (\<open>Ok\<close>, with the decoded body).
\<close>

datatype 'a reply = Threw string | NotOk string | Ok 'a

datatype notice =
    NothingToUndo | UndoFailed string | UndoDone | ReassignFailed string | ReassignDone
  | MoveUndoFailed string | MoveUndoDone | UndoError string
  | ScheduleFetchError string | ScheduleFetchFailed string
  | NgDrop | SameDay | NoFreeSlot | MoveFailed string | Moved | MoveError string
  | SamePlace | NoSlotHere | MoveProcessError string
  | NoHospitalList | NoRemaining | DeleteFailed string | Deleted | DeleteError string
  | CapReached int | AssignFailed string | AssignSaved | AssignError string

datatype event = Fetch request | Show notice

definition requestsOf :: "event list \<Rightarrow> request list" where
  "requestsOf evs = concat (map (\<lambda>e. case e of Fetch q \<Rightarrow> [q] | Show _ \<Rightarrow> []) evs)"

section \<open>Capacity and remaining slots\<close>

fun String_nat :: "nat \<Rightarrow> string" where
  "String_nat n =
     (if n < 10 then [''0123456789'' ! n]
      else String_nat (n div 10) @ [''0123456789'' ! (n mod 10)])"

declare String_nat.simps [simp del]

definition cfgOf :: "config \<Rightarrow> hospital \<Rightarrow> hospcfg" where
  \<comment> \<open>\<open>currentCfg[hosp] || {}\<close>\<close>
  "cfgOf cfg hosp = (case map_of cfg hosp of None \<Rightarrow> Map.empty | Some c \<Rightarrow> c)"

definition capacityOf :: "config \<Rightarrow> platform \<Rightarrow> hospital \<Rightarrow> date \<Rightarrow> int" where
  "capacityOf cfg pf hosp d =
     (let c = cfgOf cfg hosp in
      case c d of
        Some v \<Rightarrow> v
      | None \<Rightarrow>
          (let jsDay = getDay pf d;
               wk = (jsDay + 6) mod 7
           in case c (String_nat wk) of Some v \<Rightarrow> v | None \<Rightarrow> 0))"


definition schedHospitals :: "cached option \<Rightarrow> hospital list" where
  \<comment> \<open>\<open>sched.hospitals\<close> of \<open>sched = scheduleCache[month] || {}\<close>\<close>
  "schedHospitals sched = (case sched of Some (Snapshot s) \<Rightarrow> hospitals s | _ \<Rightarrow> [])"

definition dayAssign :: "cached option \<Rightarrow> date \<Rightarrow> (hospital \<times> resident list) list" where
  \<comment> \<open>\<open>sched.assignments[d] || {}\<close>\<close>
  "dayAssign sched d =
     (case sched of
        Some (Snapshot s) \<Rightarrow> (case assignments s d of Some a \<Rightarrow> a | None \<Rightarrow> [])
      | _ \<Rightarrow> [])"

definition assignedArr :: "cached option \<Rightarrow> date \<Rightarrow> hospital \<Rightarrow> resident list" where
  \<comment> \<open>\<open>(sched.assignments && sched.assignments[d] && sched.assignments[d][h]) || []\<close>\<close>
  "assignedArr sched d h = (case map_of (dayAssign sched d) h of Some arr \<Rightarrow> arr | None \<Rightarrow> [])"

definition perResCounts :: "cached option \<Rightarrow> resident \<rightharpoonup> int" where
  \<comment> \<open>\<open>(scheduleCache[month] && scheduleCache[month].per_res_counts) || {}\<close>\<close>
  "perResCounts sched = (case sched of Some (Snapshot s) \<Rightarrow> per_res_counts s | _ \<Rightarrow> Map.empty)"

definition universityHospital :: hospital where
  \<comment> \<open>the four-character name tested at lines 347, 707, 806 and 889, in UTF-8\<close>
  "universityHospital =
     [CHR 0xE5, CHR 0xA4, CHR 0xA7, CHR 0xE5, CHR 0xAD, CHR 0xA6,
      CHR 0xE7, CHR 0x97, CHR 0x85, CHR 0xE9, CHR 0x99, CHR 0xA2]"

definition isWeekend :: "platform \<Rightarrow> date \<Rightarrow> bool" where
  "isWeekend pf d = (getDay pf d = 0 \<or> getDay pf d = 6)"

definition remaining :: "config \<Rightarrow> platform \<Rightarrow> cached option \<Rightarrow> bool \<Rightarrow> hospital \<Rightarrow> date \<Rightarrow> int" where
  \<comment> \<open>lines 333-348, 690-708 and 872-892, the same text at the three places\<close>
  "remaining cfg pf sched isHoliday hosp d =
     (let capacity = capacityOf cfg pf hosp d;
          assignedCount = int (length (assignedArr sched d hosp));
          capacity2 = (if hosp = universityHospital \<and> (isWeekend pf d \<or> isHoliday)
                       then capacity + 4 else capacity)
      in capacity2 - assignedCount)"

definition highlightRemaining :: "config \<Rightarrow> platform \<Rightarrow> cached option \<Rightarrow> hospital \<Rightarrow> date \<Rightarrow> int" where
  \<comment> \<open>lines 797-807: the bonus is tested as \<open>isWeekend || false\<close>\<close>
  "highlightRemaining cfg pf sched hosp d =
     (let capacity = capacityOf cfg pf hosp d;
          assignedCount = int (length (assignedArr sched d hosp));
          capacity2 = (if hosp = universityHospital \<and> (isWeekend pf d \<or> False)
                       then capacity + 4 else capacity)
      in capacity2 - assignedCount)"

definition hospitalsFor :: "config \<Rightarrow> cached option \<Rightarrow> hospital list" where
  \<comment> \<open>lines 326-328 and 855-857\<close>
  "hospitalsFor cfg sched =
     (let hs = schedHospitals sched in if hs = [] then map fst cfg else hs)"

fun modalCandidates ::
  "config \<Rightarrow> platform \<Rightarrow> cached option \<Rightarrow> bool \<Rightarrow> date \<Rightarrow> hospital list \<Rightarrow> (hospital \<times> int) list" where
  \<comment> \<open>the loop of lines 868-894\<close>
  "modalCandidates cfg pf sched isHoliday d [] = []"
| "modalCandidates cfg pf sched isHoliday d (hosp # hs) =
     (if hosp = [] then modalCandidates cfg pf sched isHoliday d hs
      else
        (let left = remaining cfg pf sched isHoliday hosp d
         in if left > 0 then (hosp, left) # modalCandidates cfg pf sched isHoliday d hs
            else modalCandidates cfg pf sched isHoliday d hs))"

fun dropCandidates ::
  "config \<Rightarrow> platform \<Rightarrow> cached option \<Rightarrow> bool \<Rightarrow> date \<Rightarrow> resident \<Rightarrow> hospital list \<Rightarrow> (hospital \<times> int) list" where
  \<comment> \<open>the loop of lines 331-352\<close>
  "dropCandidates cfg pf sched isHoliday d r [] = []"
| "dropCandidates cfg pf sched isHoliday d r (hosp # hs) =
     (let left = remaining cfg pf sched isHoliday hosp d
      in if left > 0 \<or> r \<in> set (assignedArr sched d hosp)
         then (hosp, left) # dropCandidates cfg pf sched isHoliday d r hs
         else dropCandidates cfg pf sched isHoliday d r hs)"

definition assignedHospitalsOf :: "cached option \<Rightarrow> date \<Rightarrow> resident \<Rightarrow> hospital list" where
  \<comment> \<open>lines 897-903\<close>
  "assignedHospitalsOf sched d r =
     filter (\<lambda>hh. r \<in> set (assignedArr sched d hh)) (map fst (dayAssign sched d))"

definition assigned_on_date :: "cached option \<Rightarrow> date \<Rightarrow> resident \<Rightarrow> bool" where
  \<comment> \<open>lines 946-952\<close>
  "assigned_on_date sched d r =
     list_ex (\<lambda>hh. r \<in> set (assignedArr sched d hh)) (map fst (dayAssign sched d))"

section \<open>The max-assignments field\<close>

text \<open>
  The field is \<open>None\<close> when the page has no element \<open>max-assignments\<close>, else the text of
  its value.
\<close>

definition uiMax :: "platform \<Rightarrow> string option \<Rightarrow> int" where
  \<comment> \<open>\<open>Number(document.getElementById('max-assignments')?.value || 0) || 2\<close>\<close>
  "uiMax pf field =
     (let n = (case field of None \<Rightarrow> Some 0
               | Some v \<Rightarrow> if v = [] then Some 0 else toNumber pf v)
      in case n of None \<Rightarrow> 2 | Some k \<Rightarrow> if k = 0 then 2 else k)"

definition undoMax :: "platform \<Rightarrow> string option \<Rightarrow> int option" where
  \<comment> \<open>\<open>Number(document.getElementById('max-assignments')?.value || 2)\<close>, lines 56 and 65\<close>
  "undoMax pf field =
     (case field of None \<Rightarrow> Some 2
      | Some v \<Rightarrow> if v = [] then Some 2 else toNumber pf v)"

section \<open>The change log and the schedule cache\<close>

definition pushChange :: "app \<Rightarrow> change \<Rightarrow> app" where
  "pushChange st c = st\<lparr>lastChanges := lastChanges st @ [c]\<rparr>"

definition popChange :: "app \<Rightarrow> change option \<times> app" where
  "popChange st =
     (case lastChanges st of
        [] \<Rightarrow> (None, st)
      | _ # _ \<Rightarrow> (Some (last (lastChanges st)), st\<lparr>lastChanges := butlast (lastChanges st)\<rparr>))"

definition applyResult :: "app \<Rightarrow> month \<Rightarrow> cached option \<Rightarrow> app" where
  \<comment> \<open>\<open>if(jd && jd.result) scheduleCache[month] = jd.result\<close>\<close>
  "applyResult st m res =
     (case res of None \<Rightarrow> st
      | Some c \<Rightarrow> st\<lparr>scheduleCache := (scheduleCache st)(m \<mapsto> c)\<rparr>)"

definition fetchSchedule :: "app \<Rightarrow> month \<Rightarrow> cached reply \<Rightarrow> cached \<times> event list \<times> app" where
  "fetchSchedule st m r =
     (case scheduleCache st m of
        Some c \<Rightarrow> (c, [], st)
      | None \<Rightarrow>
          (case r of
             NotOk txt \<Rightarrow>
               (ErrorSnapshot, [Fetch (GetSchedule m), Show (ScheduleFetchError txt)],
                st\<lparr>scheduleCache := (scheduleCache st)(m \<mapsto> ErrorSnapshot)\<rparr>)
           | Ok data \<Rightarrow>
               (data, [Fetch (GetSchedule m)],
                st\<lparr>scheduleCache := (scheduleCache st)(m \<mapsto> data)\<rparr>)
           | Threw e \<Rightarrow>
               (ErrorSnapshot, [Fetch (GetSchedule m), Show (ScheduleFetchFailed e)],
                st\<lparr>scheduleCache := (scheduleCache st)(m \<mapsto> ErrorSnapshot)\<rparr>)))"

definition fetchResidents ::
  "app \<Rightarrow> month \<Rightarrow> resident_info list reply \<Rightarrow> resident_info list option \<times> event list \<times> app" where
  "fetchResidents st m r =
     (case residentsCache st m of
        Some l \<Rightarrow> (Some l, [], st)
      | None \<Rightarrow>
          (case r of
             Ok l \<Rightarrow> (Some l, [Fetch (GetResidents m)],
                      st\<lparr>residentsCache := (residentsCache st)(m \<mapsto> l)\<rparr>)
           | _ \<Rightarrow> (None, [Fetch (GetResidents m)], st)))"

section \<open>The assign dialog\<close>

text \<open>
  \<open>openAssignModal\<close> up to the display of the dialog: the candidates with their
  remaining counts and the hospitals the resident holds on the date (the delete button is
  shown when there is one). \<open>sr\<close> and \<open>hr\<close> are the replies to the schedule fetch and to
  the holiday lookup.
\<close>

definition openAssignModal ::
  "platform \<Rightarrow> app \<Rightarrow> date \<Rightarrow> resident \<Rightarrow> month \<Rightarrow> cached reply \<Rightarrow> bool reply
   \<Rightarrow> event list \<times> app \<times> ((hospital \<times> int) list \<times> hospital list) option" where
  "openAssignModal pf st dateIso residentName mon sr hr =
     (case fetchSchedule st mon sr of (c, ev1, st1) \<Rightarrow>
       (let sched = scheduleCache st1 mon;
            hs = hospitalsFor (currentCfg st1) sched
        in if hs = [] then (ev1 @ [Show NoHospitalList], st1, None)
           else
             (let isHoliday = (hr = Ok True);
                  ev2 = ev1 @ [Fetch (GetIsHoliday dateIso)];
                  candidates = modalCandidates (currentCfg st1) pf sched isHoliday dateIso hs;
                  assignedHospitals = assignedHospitalsOf sched dateIso residentName
              in if candidates = [] \<and> assignedHospitals = []
                 then (ev2 @ [Show NoRemaining], st1, None)
                 else (ev2, st1, Some (candidates, assignedHospitals)))))"

text \<open>
  The click on a candidate button (lines 938-991). \<open>mr\<close> is the reply to the assign
  request, \<open>sr\<close> the reply to the schedule fetch of line 978.
\<close>

definition assignClick ::
  "platform \<Rightarrow> app \<Rightarrow> string option \<Rightarrow> month \<Rightarrow> date \<Rightarrow> resident \<Rightarrow> hospital
   \<Rightarrow> cached option reply \<Rightarrow> cached reply \<Rightarrow> event list \<times> app" where
  "assignClick pf st field mon dateIso residentName hosp mr sr =
     (let mx = uiMax pf field;
          curCounts = perResCounts (scheduleCache st mon);
          cur = (case curCounts residentName of None \<Rightarrow> 0 | Some n \<Rightarrow> n);
          on_date = assigned_on_date (scheduleCache st mon) dateIso residentName
      in if cur - (if on_date then 1 else 0) + 1 > mx then ([Show (CapReached mx)], st)
         else
           (let req = Fetch (PostAssign mon dateIso residentName hosp (Some mx))
            in case mr of
                 NotOk txt \<Rightarrow> ([req, Show (AssignFailed txt)], st)
               | Threw e \<Rightarrow> ([req, Show (AssignError e)], st)
               | Ok res \<Rightarrow>
                   (let st1 = applyResult st mon res;
                        st2 = pushChange st1 (Assign mon dateIso residentName hosp)
                    in case fetchSchedule st2 mon sr of (c, ev3, st3) \<Rightarrow>
                         ([req, Show AssignSaved] @ ev3, st3))))"

text \<open>
  The click on the delete button (lines 915-931); \<open>assignedHospitals\<close> is the list the
  dialog collected when it opened.
\<close>

definition unassignClick ::
  "app \<Rightarrow> month \<Rightarrow> date \<Rightarrow> resident \<Rightarrow> hospital list \<Rightarrow> cached option reply \<Rightarrow> event list \<times> app" where
  "unassignClick st mon dateIso residentName assignedHospitals mr =
     (let req = Fetch (PostUnassign mon dateIso residentName)
      in case mr of
           NotOk txt \<Rightarrow> ([req, Show (DeleteFailed txt)], st)
         | Threw e \<Rightarrow> ([req, Show (DeleteError e)], st)
         | Ok res \<Rightarrow>
             ([req, Show Deleted],
              pushChange (applyResult st mon res)
                (Unassign mon dateIso residentName assignedHospitals)))"

section \<open>Drops on the calendar\<close>

text \<open>
  The drop handler of a day cell (lines 308-385) up to the display of the hospital
  chooser. \<open>ngClass\<close> says whether the cell carries the class \<open>ng-day\<close>, \<open>raw\<close> is the
  decoded drag data, if any.
\<close>

definition calendarDrop ::
  "platform \<Rightarrow> app \<Rightarrow> month \<Rightarrow> date \<Rightarrow> bool \<Rightarrow> dragmeta option \<Rightarrow> cached reply \<Rightarrow> bool reply
   \<Rightarrow> event list \<times> app \<times> (hospital \<times> int) list option" where
  "calendarDrop pf st monthKey dateStr ngClass raw sr hr =
     (case residentHighlight st of
        None \<Rightarrow> ([], st, None)
      | Some hl \<Rightarrow>
          if ngClass \<or> dateStr \<in> set (hl_ng_dates hl) then ([Show NgDrop], st, None)
          else
            (case raw of
               None \<Rightarrow> ([], st, None)
             | Some meta \<Rightarrow>
                 if from_date meta = dateStr then ([Show SameDay], st, None)
                 else
                   (case fetchSchedule st monthKey sr of (c, ev1, st1) \<Rightarrow>
                     (let sched = scheduleCache st1 monthKey;
                          hs = hospitalsFor (currentCfg st1) sched;
                          isHoliday = (hr = Ok True);
                          ev2 = ev1 @ [Fetch (GetIsHoliday dateStr)];
                          candidates = dropCandidates (currentCfg st1) pf sched isHoliday
                                         dateStr (dm_resident meta) hs
                      in if candidates = [] then (ev2 @ [Show NoFreeSlot], st1, None)
                         else (ev2, st1, Some candidates)))))"

text \<open>The click on a hospital of the chooser (lines 363-376).\<close>

definition moveClick ::
  "platform \<Rightarrow> app \<Rightarrow> string option \<Rightarrow> month \<Rightarrow> dragmeta \<Rightarrow> date \<Rightarrow> hospital
   \<Rightarrow> cached option reply \<Rightarrow> event list \<times> app" where
  "moveClick pf st field monthKey meta targetDate hosp mr =
     (let mx = uiMax pf field;
          req = Fetch (PostMove monthKey (dm_resident meta) (from_date meta) (from_hospital meta)
                         targetDate (Some hosp) (Some mx))
      in case mr of
           NotOk t \<Rightarrow> ([req, Show (MoveFailed t)], st)
         | Threw e \<Rightarrow> ([req, Show (MoveError e)], st)
         | Ok res \<Rightarrow>
             ([req, Show Moved],
              pushChange (applyResult st monthKey res)
                (Move monthKey (dm_resident meta) (from_date meta) (from_hospital meta)
                   targetDate hosp)))"

section \<open>Drops on the schedule table\<close>

text \<open>
  The drop handler of a table cell \<open>(d, h)\<close> (lines 676-723). Line 701 reads the
  identifier \<open>sched\<close>. \<open>binding\<close> is what the identifier resolves to in the scope of the
  handler: \<open>None\<close> when no declaration of it is in scope, in which case the read throws a
  ReferenceError that the \<open>catch\<close> of line 722 reports.
\<close>

definition tableDropWith ::
  "cached option \<Rightarrow> platform \<Rightarrow> app \<Rightarrow> string option \<Rightarrow> month \<Rightarrow> date \<Rightarrow> hospital
   \<Rightarrow> resident_info list reply \<Rightarrow> bool reply \<Rightarrow> cached option reply \<Rightarrow> event list \<times> app" where
  "tableDropWith binding pf st field monthKey d h rr hr mr =
     (case currentDragMeta st of
        None \<Rightarrow> ([], st)
      | Some meta \<Rightarrow>
          if from_date meta = d \<and> from_hospital meta = Some h then ([Show SamePlace], st)
          else
            (case fetchResidents st monthKey rr of (rs, ev1, st1) \<Rightarrow>
              (let found = (case rs of None \<Rightarrow> None
                            | Some l \<Rightarrow> find (\<lambda>r. name r = dm_resident meta) l);
                   isNg = (case found of None \<Rightarrow> False | Some f \<Rightarrow> d \<in> set (ng_dates f))
               in if isNg then (ev1 @ [Show NgDrop], st1)
                  else
                    (case binding of
                       None \<Rightarrow> (ev1 @ [Show (MoveProcessError ''sched is not defined'')], st1)
                     | Some sched \<Rightarrow>
                         (let assignedArr2 = assignedArr (Some sched) d h;
                              isHoliday2 = (hr = Ok True);
                              ev2 = ev1 @ [Fetch (GetIsHoliday d)];
                              remaining2 = remaining (currentCfg st1) pf (Some sched) isHoliday2 h d
                          in if remaining2 \<le> 0 \<and> dm_resident meta \<notin> set assignedArr2
                             then (ev2 @ [Show NoSlotHere], st1)
                             else
                               (let mx = uiMax pf field;
                                    req = Fetch (PostMove monthKey (dm_resident meta)
                                                   (from_date meta) (from_hospital meta)
                                                   d (Some h) (Some mx))
                                in case mr of
                                     NotOk t \<Rightarrow> (ev2 @ [req, Show (MoveFailed t)], st1)
                                   | Threw e \<Rightarrow> (ev2 @ [req, Show (MoveProcessError e)], st1)
                                   | Ok res \<Rightarrow>
                                       (ev2 @ [req, Show Moved],
                                        pushChange (applyResult st1 monthKey res)
                                          (Move monthKey (dm_resident meta) (from_date meta)
                                             (from_hospital meta) d h))))))))"

text \<open>
  \<open>renderScheduleTable\<close> declares no \<open>sched\<close>, and neither does the top level of the
  script (the three \<open>const sched\<close> of lines 325, 796 and 853 are local to other
  functions): the handler runs with the identifier unresolved.
\<close>

definition tableDrop ::
  "platform \<Rightarrow> app \<Rightarrow> string option \<Rightarrow> month \<Rightarrow> date \<Rightarrow> hospital
   \<Rightarrow> resident_info list reply \<Rightarrow> bool reply \<Rightarrow> cached option reply \<Rightarrow> event list \<times> app" where
  "tableDrop = tableDropWith None"

section \<open>The highlight of the preview table\<close>

datatype mark = NgPreview | PreviewDropTarget | Unmarked

definition highlightCell ::
  "config \<Rightarrow> platform \<Rightarrow> cached option \<Rightarrow> date list \<Rightarrow> date \<times> hospital \<Rightarrow> mark" where
  \<comment> \<open>one turn of the loop of lines 790-809\<close>
  "highlightCell cfg pf sched ngDates cell =
     (case cell of (d, h) \<Rightarrow>
        if d = [] \<or> h = [] then Unmarked
        else if d \<in> set ngDates then NgPreview
        else if highlightRemaining cfg pf sched h d > 0 then PreviewDropTarget
        else Unmarked)"

definition highlightPreviewTargets ::
  "platform \<Rightarrow> app \<Rightarrow> month \<Rightarrow> resident \<Rightarrow> resident_info list reply \<Rightarrow> (date \<times> hospital) list
   \<Rightarrow> event list \<times> app \<times> mark list" where
  "highlightPreviewTargets pf st monthKey residentName rr cells =
     (case fetchResidents st monthKey rr of (rs, ev1, st1) \<Rightarrow>
        (let found = (case rs of None \<Rightarrow> None | Some l \<Rightarrow> find (\<lambda>r. name r = residentName) l);
             ngDates = (case found of None \<Rightarrow> [] | Some f \<Rightarrow> ng_dates f)
         in (ev1, st1,
             map (highlightCell (currentCfg st1) pf (scheduleCache st1 monthKey) ngDates) cells)))"

section \<open>Undo\<close>

text \<open>
  The loop of lines 55-60 over the hospitals of an \<open>unassign\<close> record. \<open>rs i\<close> is the
  reply to the \<open>i\<close>-th request of the call. The flag says whether the loop ran to its end.
\<close>

fun replay ::
  "(nat \<Rightarrow> cached option reply) \<Rightarrow> nat \<Rightarrow> month \<Rightarrow> date \<Rightarrow> resident \<Rightarrow> int option
   \<Rightarrow> hospital list \<Rightarrow> app \<Rightarrow> event list \<times> app \<times> bool" where
  "replay rs i mon d r mx [] st = ([], st, True)"
| "replay rs i mon d r mx (h # hs) st =
     (case rs i of
        NotOk t \<Rightarrow> ([Fetch (PostAssign mon d r h mx), Show (ReassignFailed t)], st, False)
      | Threw e \<Rightarrow> ([Fetch (PostAssign mon d r h mx), Show (UndoError e)], st, False)
      | Ok res \<Rightarrow>
          (case replay rs (Suc i) mon d r mx hs (applyResult st mon res) of
             (ev, st2, fin) \<Rightarrow> (Fetch (PostAssign mon d r h mx) # ev, st2, fin)))"

definition undoLastChange ::
  "platform \<Rightarrow> app \<Rightarrow> string option \<Rightarrow> (nat \<Rightarrow> cached option reply) \<Rightarrow> event list \<times> app" where
  "undoLastChange pf st field rs =
     (case popChange st of
        (None, st0) \<Rightarrow> ([Show NothingToUndo], st)
      | (Some ch, st1) \<Rightarrow>
          (case ch of
             Assign mon d r h \<Rightarrow>
               (case rs 0 of
                  NotOk t \<Rightarrow> ([Fetch (PostUnassign mon d r), Show (UndoFailed t)], st1)
                | Threw e \<Rightarrow> ([Fetch (PostUnassign mon d r), Show (UndoError e)], st1)
                | Ok res \<Rightarrow> ([Fetch (PostUnassign mon d r), Show UndoDone], applyResult st1 mon res))
           | Unassign mon d r hs \<Rightarrow>
               (case replay rs 0 mon d r (undoMax pf field) hs st1 of
                  (ev, st2, fin) \<Rightarrow> (if fin then ev @ [Show ReassignDone] else ev, st2))
           | Move mon r fd fh td th \<Rightarrow>
               (let req = Fetch (PostMove mon r td (Some th) fd fh (undoMax pf field))
                in case rs 0 of
                     NotOk t \<Rightarrow> ([req, Show (MoveUndoFailed t)], st1)
                   | Threw e \<Rightarrow> ([req, Show (UndoError e)], st1)
                   | Ok res \<Rightarrow> ([req, Show MoveUndoDone], applyResult st1 mon res))))"

section \<open>Notions for the statements\<close>

text \<open>A reply with an OK status.\<close>

definition isOk :: "'a reply \<Rightarrow> bool" where
  "isOk r = (case r of Ok _ \<Rightarrow> True | _ \<Rightarrow> False)"

text \<open>The \<open>max_assignments\<close> of a payload that has one.\<close>

definition maxSent :: "request \<Rightarrow> int option option" where
  "maxSent q =
     (case q of PostAssign _ _ _ _ mx \<Rightarrow> Some mx
      | PostMove _ _ _ _ _ _ mx \<Rightarrow> Some mx
      | _ \<Rightarrow> None)"

text \<open>The requests that change the schedule on the backend.\<close>

definition isMutation :: "request \<Rightarrow> bool" where
  "isMutation q =
     (case q of PostAssign _ _ _ _ _ \<Rightarrow> True | PostUnassign _ _ _ \<Rightarrow> True
      | PostMove _ _ _ _ _ _ _ \<Rightarrow> True | _ \<Rightarrow> False)"

text \<open>The notice of a replay that stops (line 58, or the \<open>catch\<close> of line 72).\<close>

definition replayFailure :: "cached option reply \<Rightarrow> notice" where
  "replayFailure r = (case r of NotOk t \<Rightarrow> ReassignFailed t | Threw e \<Rightarrow> UndoError e
                      | Ok _ \<Rightarrow> ReassignDone)"

text \<open>Schedule lookups of one month, one after the other.\<close>

fun fetchAgain :: "app \<Rightarrow> month \<Rightarrow> cached reply list \<Rightarrow> cached list \<times> event list \<times> app" where
  "fetchAgain st m [] = ([], [], st)"
| "fetchAgain st m (r # rs) =
     (case fetchSchedule st m r of (c, ev, st1) \<Rightarrow>
        (case fetchAgain st1 m rs of (cs, evs, st2) \<Rightarrow> (c # cs, ev @ evs, st2)))"

text \<open>
  The remaining count in the words of the specification: the capacity, plus 4 when the
  hospital is the university hospital and the date is a Saturday, a Sunday or a holiday,
  minus the number of residents assigned to the hospital on the date.
\<close>

definition remaining_spec ::
  "config \<Rightarrow> platform \<Rightarrow> cached option \<Rightarrow> bool \<Rightarrow> hospital \<Rightarrow> date \<Rightarrow> int" where
  "remaining_spec cfg pf sched holiday h d =
     capacityOf cfg pf h d
     + (if h = universityHospital \<and> (getDay pf d = 6 \<or> getDay pf d = 0 \<or> holiday) then 4 else 0)
     - int (length (assignedArr sched d h))"

section \<open>Sample data\<close>

text \<open>
  A platform that knows some days of January 2024 (the 2nd a Tuesday, the 6th a Saturday,
  the 7th a Sunday, the 8th a Monday and a public holiday in Japan) and reads three
  numerals.
\<close>

definition samplePlatform :: platform where
  "samplePlatform =
     \<lparr>getDay = (\<lambda>d. if d = ''2024-01-02'' then 2 else if d = ''2024-01-06'' then 6
                     else if d = ''2024-01-07'' then 0 else if d = ''2024-01-08'' then 1 else 3),
      toNumber = (\<lambda>s. if s = ''0'' then Some 0 else if s = ''2'' then Some 2
                       else if s = ''3'' then Some 3 else None)\<rparr>"

text \<open>
  January 2024 with one hospital: two places on Tuesdays, one on the 3rd, which Sato
  holds. Abe has two assignments in the month, none on the 2nd or the 3rd.
\<close>

definition fullSchedule :: schedule where
  "fullSchedule =
     \<lparr>dates = [''2024-01-02'', ''2024-01-03''],
      hospitals = [''General''],
      assignments = [''2024-01-03'' \<mapsto> [(''General'', [''Sato''])]],
      per_res_counts = [''Sato'' \<mapsto> 1, ''Abe'' \<mapsto> 2]\<rparr>"

definition fullState :: app where
  "fullState =
     \<lparr>currentCfg = [(''General'', [''1'' \<mapsto> 2, ''2024-01-03'' \<mapsto> 1])],
      scheduleCache = [''2024-01'' \<mapsto> Snapshot fullSchedule],
      residentsCache = Map.empty,
      residentHighlight = None,
      currentDragMeta = None,
      lastChanges = []\<rparr>"

text \<open>The drag data of Sato's label of the 3rd.\<close>

definition satoMeta :: dragmeta where
  "satoMeta = \<lparr>dm_resident = ''Sato'', from_date = ''2024-01-03'', from_hospital = Some ''General''\<rparr>"

text \<open>The same state while that label is being dragged.\<close>

definition dragState :: app where
  "dragState = fullState\<lparr>currentDragMeta := Some satoMeta\<rparr>"

text \<open>A session that has fetched nothing yet.\<close>

definition emptyState :: app where
  "emptyState =
     \<lparr>currentCfg = [(''General'', [''1'' \<mapsto> 2, ''2024-01-03'' \<mapsto> 1])],
      scheduleCache = Map.empty,
      residentsCache = Map.empty,
      residentHighlight = None,
      currentDragMeta = None,
      lastChanges = []\<rparr>"

text \<open>
  A log whose last entry is an unassign of three hospitals, and a backend that rejects
  the second request of a call.
\<close>

definition threeHospitals :: "hospital list" where
  "threeHospitals = [''General'', ''North'', ''South'']"

definition loggedState :: app where
  "loggedState = fullState\<lparr>lastChanges :=
      [Move ''2024-01'' ''Abe'' ''2024-01-09'' (Some ''North'') ''2024-01-10'' ''South'',
       Unassign ''2024-01'' ''2024-01-03'' ''Sato'' threeHospitals]\<rparr>"

definition secondFails :: "nat \<Rightarrow> cached option reply" where
  "secondFails i = (if i = 1 then NotOk ''full'' else Ok None)"

text \<open>
  The university hospital with no place on Mondays and one on Saturdays, beside a
  hospital with one place on Mondays; and a session with that configuration that has
  fetched nothing yet.
\<close>

definition universityCfg :: config where
  "universityCfg = [(universityHospital, [''0'' \<mapsto> 0, ''5'' \<mapsto> 1]), (''General'', [''0'' \<mapsto> 1])]"

definition universityState :: app where
  "universityState = emptyState\<lparr>currentCfg := universityCfg\<rparr>"

text \<open>
  The calendar of Sato (no assignment allowed on the 5th), and the drag data of a label
  of Sato on the 2nd.
\<close>

definition highlightedState :: app where
  "highlightedState = fullState\<lparr>residentHighlight :=
      Some \<lparr>hl_name = ''Sato'', hl_month = ''2024-01'', hl_ng_dates = [''2024-01-05'']\<rparr>\<rparr>"

definition satoFromSecond :: dragmeta where
  "satoFromSecond =
     \<lparr>dm_resident = ''Sato'', from_date = ''2024-01-02'', from_hospital = Some ''General''\<rparr>"

text \<open>
  The 3rd of January 2024 with two hospitals of one place each: the place of the first
  is free, Sato holds the place of the second. The calendar shows Sato, who may not be
  assigned on the 5th.
\<close>

definition twoHospitals :: schedule where
  "twoHospitals =
     \<lparr>dates = [''2024-01-02'', ''2024-01-03''],
      hospitals = [''General'', ''North''],
      assignments = [''2024-01-03'' \<mapsto> [(''General'', []), (''North'', [''Sato''])]],
      per_res_counts = [''Sato'' \<mapsto> 1]\<rparr>"

definition twoState :: app where
  "twoState =
     \<lparr>currentCfg = [(''General'', [''2024-01-03'' \<mapsto> 1]), (''North'', [''2024-01-03'' \<mapsto> 1])],
      scheduleCache = [''2024-01'' \<mapsto> Snapshot twoHospitals],
      residentsCache = Map.empty,
      residentHighlight =
        Some \<lparr>hl_name = ''Sato'', hl_month = ''2024-01'', hl_ng_dates = [''2024-01-05'']\<rparr>,
      currentDragMeta = None,
      lastChanges = []\<rparr>"

definition satoAtNorth :: dragmeta where
  "satoAtNorth =
     \<lparr>dm_resident = ''Sato'', from_date = ''2024-01-03'', from_hospital = Some ''North''\<rparr>"

text \<open>The same session while the label of Sato on the 2nd is dragged over the table.\<close>

definition tableState :: app where
  "tableState = twoState
     \<lparr>residentsCache := [''2024-01'' \<mapsto>
        [\<lparr>name = ''Sato'', rotation_type = ''A'', ng_dates = [''2024-01-05'']\<rparr>]],
      currentDragMeta := Some satoFromSecond\<rparr>"


section \<open>Capacity\<close>

lemma String_nat_digit: "n < 10 \<Longrightarrow> String_nat n = [''0123456789'' ! n]"
  by (simp add: String_nat.simps)

text \<open>
  C4. The capacity of a hospital on a date is the date's own entry of the hospital's
  configuration when there is one; otherwise the entry under the weekday key
  \<open>(getDay + 6) mod 7\<close>, which sends the platform's Sunday-first day to the Monday-first
  index (Sunday to 6, Monday to 0, Tuesday to 1 and so on); otherwise 0. A hospital
  whose key \<open>1\<close> holds 2 and that has no entry for the date has capacity 2 on a Tuesday.
\<close>

theorem capacityOf_rule:
  "(\<forall>v. cfgOf cfg hosp d = Some v \<longrightarrow> capacityOf cfg pf hosp d = v) \<and>
   (\<forall>v. cfgOf cfg hosp d = None \<and> cfgOf cfg hosp (String_nat ((getDay pf d + 6) mod 7)) = Some v
        \<longrightarrow> capacityOf cfg pf hosp d = v) \<and>
   (cfgOf cfg hosp d = None \<and> cfgOf cfg hosp (String_nat ((getDay pf d + 6) mod 7)) = None
        \<longrightarrow> capacityOf cfg pf hosp d = 0) \<and>
   (getDay pf d = 2 \<and> cfgOf cfg hosp d = None \<and> cfgOf cfg hosp ''1'' = Some 2
        \<longrightarrow> capacityOf cfg pf hosp d = 2) \<and>
   map (\<lambda>n. String_nat ((n + 6) mod 7)) [0, 1, 2, 3, 4, 5, 6]
     = [''6'', ''0'', ''1'', ''2'', ''3'', ''4'', ''5'']"
  by (simp add: capacityOf_def Let_def String_nat_digit)

theorem capacityOf_rule_witness:
  "getDay samplePlatform ''2024-01-02'' = 2 \<and>
   cfgOf [(''General'', [''1'' \<mapsto> 2])] ''General'' ''2024-01-02'' = None \<and>
   cfgOf [(''General'', [''1'' \<mapsto> 2])] ''General'' ''1'' = Some 2 \<and>
   capacityOf [(''General'', [''1'' \<mapsto> 2])] samplePlatform ''General'' ''2024-01-02'' = 2"
  using capacityOf_rule [of "[(''General'', [''1'' \<mapsto> 2])]" "''General''" "''2024-01-02''"
      samplePlatform]
  by (simp add: cfgOf_def samplePlatform_def)

section \<open>Requests of the handlers\<close>

lemma requestsOf_simps [simp]:
  "requestsOf [] = []"
  "requestsOf (Fetch q # evs) = q # requestsOf evs"
  "requestsOf (Show n # evs) = requestsOf evs"
  "requestsOf (xs @ ys) = requestsOf xs @ requestsOf ys"
  by (simp_all add: requestsOf_def)

lemma fetchSchedule_requests:
  "fetchSchedule st m r = (c, evs, st1) \<Longrightarrow> q \<in> set (requestsOf evs) \<Longrightarrow> q = GetSchedule m"
  by (auto simp: fetchSchedule_def split: option.splits reply.splits)

lemma fetchResidents_requests:
  "fetchResidents st m r = (c, evs, st1) \<Longrightarrow> q \<in> set (requestsOf evs) \<Longrightarrow> q = GetResidents m"
  by (auto simp: fetchResidents_def split: option.splits reply.splits)

section \<open>The cap of the assign dialog\<close>

lemma assigned_on_date_iff:
  "assigned_on_date sched d r =
     (\<exists>hh. hh \<in> fst ` set (dayAssign sched d) \<and> r \<in> set (assignedArr sched d hh))"
  by (auto simp: assigned_on_date_def list_ex_iff)

text \<open>
  C5. A click on a candidate of the assign dialog fails with the cap notice, sends no
  request and leaves the state as it is exactly when
  \<open>cur - (if already then 1 else 0) + 1\<close> exceeds the maximum read from the page, where
  \<open>cur\<close> is the resident's entry of \<open>per_res_counts\<close> in the cached schedule (0 when there
  is none) and \<open>already\<close> says that the resident is listed under some hospital of the
  date. Otherwise the first thing the click does is to send the assign request.
\<close>

theorem assignClick_cap:
  assumes "assignClick pf st field mon d r h mr sr = (evs, st')"
  shows "let cur = (case perResCounts (scheduleCache st mon) r of None \<Rightarrow> 0 | Some n \<Rightarrow> n);
             already = (\<exists>hh. hh \<in> fst ` set (dayAssign (scheduleCache st mon) d)
                              \<and> r \<in> set (assignedArr (scheduleCache st mon) d hh));
             exceeded = (cur - (if already then 1 else 0) + 1 > uiMax pf field)
         in (exceeded \<longrightarrow> evs = [Show (CapReached (uiMax pf field))] \<and> st' = st) \<and>
            (\<not> exceeded \<longrightarrow>
               hd evs = Fetch (PostAssign mon d r h (Some (uiMax pf field))) \<and>
               (\<forall>n. Show (CapReached n) \<notin> set evs)) \<and>
            (requestsOf evs = []) = exceeded"
  using assms
  unfolding assignClick_def Let_def assigned_on_date_iff [symmetric]
  by (auto simp: fetchSchedule_def split: if_splits reply.splits option.splits prod.splits)

theorem assignClick_cap_witness:
  "uiMax samplePlatform (Some ''2'') = 2 \<and>
   perResCounts (scheduleCache fullState ''2024-01'') ''Abe'' = Some 2 \<and>
   dayAssign (scheduleCache fullState ''2024-01'') ''2024-01-02'' = [] \<and>
   assignClick samplePlatform fullState (Some ''2'') ''2024-01'' ''2024-01-02'' ''Abe'' ''General''
     (Ok None) (Threw ''x'') = ([Show (CapReached 2)], fullState)"
  using assignClick_cap [of samplePlatform fullState "Some ''2''" "''2024-01''" "''2024-01-02''"
      "''Abe''" "''General''" "Ok None" "Threw ''x''"]
  by (simp add: assignClick_def uiMax_def fullState_def fullSchedule_def perResCounts_def
      assigned_on_date_def dayAssign_def samplePlatform_def Let_def)

section \<open>The maximum sent to the backend\<close>

lemma uiMax_two:
  "field = None \<or> field = Some [] \<or> (\<exists>v. field = Some v \<and> toNumber pf v = Some 0)
   \<Longrightarrow> uiMax pf field = 2"
  by (auto simp: uiMax_def)

lemma assignClick_max:
  "q \<in> set (requestsOf (fst (assignClick pf st field mon d r h mr sr)))
   \<Longrightarrow> maxSent q = None \<or> maxSent q = Some (Some (uiMax pf field))"
  by (auto simp: assignClick_def Let_def maxSent_def split: if_splits reply.splits prod.splits
      dest: fetchSchedule_requests)

lemma moveClick_max:
  "q \<in> set (requestsOf (fst (moveClick pf st field mon meta td h mr)))
   \<Longrightarrow> maxSent q = Some (Some (uiMax pf field))"
  by (auto simp: moveClick_def Let_def maxSent_def split: reply.splits)

lemma tableDropWith_max:
  "q \<in> set (requestsOf (fst (tableDropWith binding pf st field mon d h rr hr mr)))
   \<Longrightarrow> maxSent q = None \<or> maxSent q = Some (Some (uiMax pf field))"
  by (auto simp: tableDropWith_def Let_def maxSent_def
      split: if_splits reply.splits prod.splits option.splits
      dest: fetchResidents_requests)

lemma assignClick_capped:
  "(fst (assignClick pf st field mon d r h mr sr) = [Show (CapReached (uiMax pf field))]) =
   ((case perResCounts (scheduleCache st mon) r of None \<Rightarrow> 0 | Some n \<Rightarrow> n)
      - (if assigned_on_date (scheduleCache st mon) d r then 1 else 0) + 1 > uiMax pf field)"
  by (auto simp: assignClick_def Let_def split: reply.splits prod.splits)

text \<open>
  C10. When the page has no max-assignments field, or its text is empty, or its text
  reads as the number 0, the maximum is 2: every assign request of the dialog and every
  move request of the calendar chooser and of the table drop carries 2 as
  \<open>max_assignments\<close>, and the cap check of the dialog compares with 2. A 0 typed by
  the user is so replaced by 2.
\<close>

theorem uiMax_fallback:
  assumes "field = None \<or> field = Some [] \<or> (\<exists>v. field = Some v \<and> toNumber pf v = Some 0)"
  shows "uiMax pf field = 2 \<and>
    (\<forall>q \<in> set (requestsOf (fst (assignClick pf st field mon d r h mr sr))).
        maxSent q = None \<or> maxSent q = Some (Some 2)) \<and>
    (\<forall>q \<in> set (requestsOf (fst (moveClick pf st field mon meta d h mr))).
        maxSent q = Some (Some 2)) \<and>
    (\<forall>q \<in> set (requestsOf (fst (tableDropWith binding pf st field mon d h rr hr mr))).
        maxSent q = None \<or> maxSent q = Some (Some 2)) \<and>
    (fst (assignClick pf st field mon d r h mr sr) = [Show (CapReached 2)]) =
      ((case perResCounts (scheduleCache st mon) r of None \<Rightarrow> 0 | Some n \<Rightarrow> n)
         - (if assigned_on_date (scheduleCache st mon) d r then 1 else 0) + 1 > 2)"
proof -
  have two: "uiMax pf field = 2" using assms by (rule uiMax_two)
  show ?thesis
    using assignClick_max [of _ pf st field mon d r h mr sr]
      moveClick_max [of _ pf st field mon meta d h mr]
      tableDropWith_max [of _ binding pf st field mon d h rr hr mr]
      assignClick_capped [of pf st field mon d r h mr sr]
    by (simp add: two)
qed

theorem uiMax_fallback_witness:
  "toNumber samplePlatform ''0'' = Some 0 \<and>
   uiMax samplePlatform (Some ''0'') = 2 \<and>
   requestsOf (fst (assignClick samplePlatform fullState (Some ''0'') ''2024-01'' ''2024-01-02''
      ''Sato'' ''General'' (NotOk ''full'') (Threw ''x'')))
     = [PostAssign ''2024-01'' ''2024-01-02'' ''Sato'' ''General'' (Some 2)] \<and>
   requestsOf (fst (moveClick samplePlatform fullState (Some ''0'') ''2024-01''
      \<lparr>dm_resident = ''Sato'', from_date = ''2024-01-03'', from_hospital = Some ''General''\<rparr>
      ''2024-01-02'' ''General'' (NotOk ''full'')))
     = [PostMove ''2024-01'' ''Sato'' ''2024-01-03'' (Some ''General'') ''2024-01-02''
          (Some ''General'') (Some 2)] \<and>
   requestsOf (fst (tableDropWith (Some (Snapshot fullSchedule)) samplePlatform dragState
      (Some ''0'') ''2024-01'' ''2024-01-02'' ''General'' (Ok []) (Ok False) (NotOk ''full'')))
     = [GetResidents ''2024-01'', GetIsHoliday ''2024-01-02'',
        PostMove ''2024-01'' ''Sato'' ''2024-01-03'' (Some ''General'') ''2024-01-02''
          (Some ''General'') (Some 2)]"
  using uiMax_fallback [of "Some ''0''" samplePlatform fullState "''2024-01''" "''2024-01-02''"
      "''Sato''" "''General''" "NotOk ''full''" "Threw ''x''"
      "\<lparr>dm_resident = ''Sato'', from_date = ''2024-01-03'', from_hospital = Some ''General''\<rparr>"
      "Some (Snapshot fullSchedule)" "Ok []" "Ok False"]
  by (simp add: assignClick_def moveClick_def tableDropWith_def uiMax_def fullState_def
      fullSchedule_def perResCounts_def assigned_on_date_def dayAssign_def samplePlatform_def
      dragState_def satoMeta_def fetchResidents_def remaining_def capacityOf_def cfgOf_def assignedArr_def
      String_nat_digit universityHospital_def isWeekend_def Let_def)

section \<open>The schedule cache after a failed fetch\<close>

lemma fetchSchedule_cached:
  "scheduleCache st m = Some c \<Longrightarrow> fetchSchedule st m r = (c, [], st)"
  by (simp add: fetchSchedule_def)

lemma fetchSchedule_failed:
  "scheduleCache st m = None \<Longrightarrow> \<not> isOk r \<Longrightarrow>
   \<exists>n. fetchSchedule st m r =
     (ErrorSnapshot, [Fetch (GetSchedule m), Show n],
      st\<lparr>scheduleCache := (scheduleCache st)(m \<mapsto> ErrorSnapshot)\<rparr>)"
  by (cases r) (simp_all add: fetchSchedule_def isOk_def)

lemma fetchAgain_cached:
  "scheduleCache st m = Some c \<Longrightarrow> fetchAgain st m rs = (replicate (length rs) c, [], st)"
  by (induction rs) (simp_all add: fetchSchedule_cached)

lemma applyResult_cache:
  "scheduleCache (applyResult st m (Some s)) m = Some s"
  by (simp add: applyResult_def)

lemma pushChange_cache [simp]: "scheduleCache (pushChange st c) = scheduleCache st"
  by (simp add: pushChange_def)

lemma openAssignModal_cached:
  "scheduleCache st m = Some c \<Longrightarrow>
   GetSchedule m' \<notin> set (requestsOf (fst (openAssignModal pf st d r m sr hr)))"
  by (simp add: openAssignModal_def fetchSchedule_cached Let_def)

lemma calendarDrop_cached:
  "scheduleCache st m = Some c \<Longrightarrow>
   GetSchedule m' \<notin> set (requestsOf (fst (calendarDrop pf st m d ng raw sr hr)))"
  by (simp add: calendarDrop_def fetchSchedule_cached Let_def split: option.splits)

text \<open>
  C9. When the fetch of a month's schedule fails (the call throws or the status is not
  OK), the sentinel is cached under the month. From then on every lookup of the month
  returns the sentinel and sends nothing, however many follow and whatever the backend
  would answer; the assign dialog and the calendar drop do not fetch the month either.
  A mutation that succeeds with a schedule in its response (a move, an unassign, an
  assign that passes the cap) puts that schedule in place of the sentinel, and the next
  lookup returns it.
\<close>

theorem fetchSchedule_sentinel:
  assumes "scheduleCache st m = None" and "\<not> isOk r"
    and "fetchSchedule st m r = (c, evs, st1)"
  shows "c = ErrorSnapshot \<and> scheduleCache st1 m = Some ErrorSnapshot \<and>
     requestsOf evs = [GetSchedule m] \<and>
     fetchAgain st1 m rs = (replicate (length rs) ErrorSnapshot, [], st1) \<and>
     GetSchedule m \<notin> set (requestsOf (fst (openAssignModal pf st1 d res m sr hr))) \<and>
     GetSchedule m \<notin> set (requestsOf (fst (calendarDrop pf st1 m d ng raw sr hr))) \<and>
     scheduleCache (snd (moveClick pf st1 field m meta d h (Ok (Some s)))) m = Some s \<and>
     scheduleCache (snd (unassignClick st1 m d res hs (Ok (Some s)))) m = Some s \<and>
     (1 \<le> uiMax pf field \<longrightarrow>
        scheduleCache (snd (assignClick pf st1 field m d res h (Ok (Some s)) sr)) m = Some s) \<and>
     fetchSchedule (applyResult st1 m (Some s)) m sr = (s, [], applyResult st1 m (Some s))"
proof -
  from fetchSchedule_failed [OF assms(1,2)] assms(3)
  have c: "c = ErrorSnapshot" and ev: "requestsOf evs = [GetSchedule m]"
    and st1: "st1 = st\<lparr>scheduleCache := (scheduleCache st)(m \<mapsto> ErrorSnapshot)\<rparr>"
    by auto
  have cached: "scheduleCache st1 m = Some ErrorSnapshot" by (simp add: st1)
  have again: "fetchAgain st1 m rs = (replicate (length rs) ErrorSnapshot, [], st1)"
    by (rule fetchAgain_cached [OF cached])
  have mv: "scheduleCache (snd (moveClick pf st1 field m meta d h (Ok (Some s)))) m = Some s"
    by (simp add: moveClick_def Let_def applyResult_cache)
  have un: "scheduleCache (snd (unassignClick st1 m d res hs (Ok (Some s)))) m = Some s"
    by (simp add: unassignClick_def Let_def applyResult_cache)
  have asg: "1 \<le> uiMax pf field \<longrightarrow>
        scheduleCache (snd (assignClick pf st1 field m d res h (Ok (Some s)) sr)) m = Some s"
    by (simp add: assignClick_def Let_def cached perResCounts_def assigned_on_date_def
        dayAssign_def fetchSchedule_cached applyResult_cache)
  have after: "fetchSchedule (applyResult st1 m (Some s)) m sr = (s, [], applyResult st1 m (Some s))"
    by (rule fetchSchedule_cached [OF applyResult_cache])
  show ?thesis
    using c ev cached again mv un asg after
      openAssignModal_cached [OF cached] calendarDrop_cached [OF cached]
    by simp
qed

theorem fetchSchedule_sentinel_witness:
  "scheduleCache emptyState ''2024-01'' = None \<and> \<not> isOk (NotOk ''503'' :: cached reply) \<and>
   fetchSchedule emptyState ''2024-01'' (NotOk ''503'') =
     (ErrorSnapshot, [Fetch (GetSchedule ''2024-01''), Show (ScheduleFetchError ''503'')],
      emptyState\<lparr>scheduleCache := [''2024-01'' \<mapsto> ErrorSnapshot]\<rparr>) \<and>
   fetchAgain (emptyState\<lparr>scheduleCache := [''2024-01'' \<mapsto> ErrorSnapshot]\<rparr>) ''2024-01''
       [Ok (Snapshot fullSchedule), NotOk ''503''] =
     ([ErrorSnapshot, ErrorSnapshot], [],
      emptyState\<lparr>scheduleCache := [''2024-01'' \<mapsto> ErrorSnapshot]\<rparr>)"
  using fetchSchedule_sentinel [of emptyState "''2024-01''" "NotOk ''503''" ErrorSnapshot
      "[Fetch (GetSchedule ''2024-01''), Show (ScheduleFetchError ''503'')]"
      "emptyState\<lparr>scheduleCache := [''2024-01'' \<mapsto> ErrorSnapshot]\<rparr>"
      "[Ok (Snapshot fullSchedule), NotOk ''503'']"]
  by (simp add: fetchSchedule_def emptyState_def isOk_def)

section \<open>The change log records confirmed mutations\<close>

lemma applyResult_log [simp]: "lastChanges (applyResult st m res) = lastChanges st"
  by (simp add: applyResult_def split: option.splits)

lemma pushChange_log [simp]: "lastChanges (pushChange st c) = lastChanges st @ [c]"
  by (simp add: pushChange_def)


lemma fetchResidents_keeps:
  "fetchResidents st m r = (c, evs, st1) \<Longrightarrow>
   lastChanges st1 = lastChanges st \<and> scheduleCache st1 = scheduleCache st \<and>
   currentCfg st1 = currentCfg st"
  by (auto simp: fetchResidents_def split: option.splits reply.splits)






lemma fetchSchedule_keeps:
  "fetchSchedule st m r = (c, evs, st1) \<Longrightarrow>
   lastChanges st1 = lastChanges st \<and>
   (\<forall>m' c'. scheduleCache st m' = Some c' \<longrightarrow> scheduleCache st1 m' = Some c') \<and>
   (scheduleCache st m \<noteq> None \<longrightarrow> st1 = st \<and> evs = []) \<and>
   (\<forall>q \<in> set (requestsOf evs). \<not> isMutation q)"
  by (auto simp: fetchSchedule_def isMutation_def split: option.splits reply.splits)

lemma calendarDrop_keeps:
  "calendarDrop pf st mon d ng raw sr hr = (evs, st1, res) \<Longrightarrow>
   lastChanges st1 = lastChanges st \<and>
   (\<forall>m' c'. scheduleCache st m' = Some c' \<longrightarrow> scheduleCache st1 m' = Some c') \<and>
   (scheduleCache st mon \<noteq> None \<longrightarrow> st1 = st) \<and>
   (\<forall>q \<in> set (requestsOf evs). \<not> isMutation q)"
  by (auto simp: calendarDrop_def Let_def isMutation_def
      split: option.splits if_splits prod.splits dest!: fetchSchedule_keeps)






section \<open>Undo\<close>

lemma replay_log:
  "replay rs i mon d r mx hs st = (evs, st2, fin) \<Longrightarrow> lastChanges st2 = lastChanges st"
proof (induction hs arbitrary: i st evs st2 fin)
  case Nil
  then show ?case by simp
next
  case (Cons h hs)
  then show ?case
    by (auto split: reply.splits prod.splits)
qed

lemma replay_all_ok:
  "(\<forall>j < length hs. isOk (rs (i + j))) \<Longrightarrow>
   \<exists>st2. replay rs i mon d r mx hs st = (map (\<lambda>h. Fetch (PostAssign mon d r h mx)) hs, st2, True)"
proof (induction hs arbitrary: i st)
  case Nil
  then show ?case by simp
next
  case (Cons h hs)
  from Cons.prems have ok0: "isOk (rs i)" by force
  then obtain res where res: "rs i = Ok res" by (cases "rs i") (simp_all add: isOk_def)
  have "\<forall>j < length hs. isOk (rs (Suc i + j))"
    using Cons.prems by force
  from Cons.IH [OF this, of "applyResult st mon res"] res
  show ?case by auto
qed

lemma replay_first_failure:
  "k < length hs \<Longrightarrow> (\<forall>j < k. isOk (rs (i + j))) \<Longrightarrow> \<not> isOk (rs (i + k)) \<Longrightarrow>
   \<exists>st2. replay rs i mon d r mx hs st =
     (map (\<lambda>h. Fetch (PostAssign mon d r h mx)) (take (Suc k) hs) @ [Show (replayFailure (rs (i + k)))],
      st2, False)"
proof (induction hs arbitrary: i k st)
  case Nil
  then show ?case by simp
next
  case (Cons h hs)
  show ?case
  proof (cases k)
    case 0
    with Cons.prems show ?thesis
      by (cases "rs i") (simp_all add: isOk_def replayFailure_def)
  next
    case (Suc k')
    with Cons.prems have "isOk (rs i)" by force
    then obtain res where res: "rs i = Ok res" by (cases "rs i") (simp_all add: isOk_def)
    have k': "k' < length hs" using Cons.prems Suc by simp
    have oks: "\<forall>j < k'. isOk (rs (Suc i + j))"
      using Cons.prems Suc by force
    have bad: "\<not> isOk (rs (Suc i + k'))" using Cons.prems Suc by simp
    from Cons.IH [OF k' oks bad, of "applyResult st mon res"] res Suc
    show ?thesis by auto
  qed
qed

lemma requestsOf_map_Fetch [simp]: "requestsOf (map (\<lambda>h. Fetch (f h)) hs) = map f hs"
  by (induction hs) simp_all

lemma undo_log:
  "lastChanges st \<noteq> [] \<Longrightarrow> undoLastChange pf st field rs = (evs, st') \<Longrightarrow>
   lastChanges st' = butlast (lastChanges st)"
  by (cases "lastChanges st")
    (auto simp: undoLastChange_def popChange_def Let_def
      split: change.splits reply.splits prod.splits if_splits dest: replay_log)

lemma undo_assign:
  "lastChanges st \<noteq> [] \<Longrightarrow> last (lastChanges st) = Assign mon d r h \<Longrightarrow>
   requestsOf (fst (undoLastChange pf st field rs)) = [PostUnassign mon d r]"
  by (cases "lastChanges st")
    (auto simp: undoLastChange_def popChange_def Let_def split: reply.splits)

lemma undo_move:
  "lastChanges st \<noteq> [] \<Longrightarrow> last (lastChanges st) = Move mon r fd fh td th \<Longrightarrow>
   requestsOf (fst (undoLastChange pf st field rs))
     = [PostMove mon r td (Some th) fd fh (undoMax pf field)]"
  by (cases "lastChanges st")
    (auto simp: undoLastChange_def popChange_def Let_def split: reply.splits)

lemma undo_unassign_ok:
  assumes "lastChanges st \<noteq> []" "last (lastChanges st) = Unassign mon d r hs"
    "\<forall>j < length hs. isOk (rs j)"
  shows "fst (undoLastChange pf st field rs)
     = map (\<lambda>h. Fetch (PostAssign mon d r h (undoMax pf field))) hs @ [Show ReassignDone]"
proof -
  obtain c cs where cs: "lastChanges st = c # cs" using assms(1) by (cases "lastChanges st") auto
  from assms(3) have "\<forall>j < length hs. isOk (rs (0 + j))" by simp
  from replay_all_ok [OF this]
  obtain st2 where
    "replay rs 0 mon d r (undoMax pf field) hs (st\<lparr>lastChanges := butlast (lastChanges st)\<rparr>)
       = (map (\<lambda>h. Fetch (PostAssign mon d r h (undoMax pf field))) hs, st2, True)"
    by blast
  then show ?thesis
    using cs assms(2) by (simp add: undoLastChange_def popChange_def)
qed

lemma undo_unassign_fail:
  assumes "lastChanges st \<noteq> []" "last (lastChanges st) = Unassign mon d r hs"
    "k < length hs" "\<forall>j < k. isOk (rs j)" "\<not> isOk (rs k)"
  shows "fst (undoLastChange pf st field rs)
     = map (\<lambda>h. Fetch (PostAssign mon d r h (undoMax pf field))) (take (Suc k) hs)
       @ [Show (replayFailure (rs k))]"
proof -
  obtain c cs where cs: "lastChanges st = c # cs" using assms(1) by (cases "lastChanges st") auto
  have "\<forall>j < k. isOk (rs (0 + j))" "\<not> isOk (rs (0 + k))" using assms(4,5) by simp_all
  from replay_first_failure [OF assms(3) this]
  obtain st2 where
    "replay rs 0 mon d r (undoMax pf field) hs (st\<lparr>lastChanges := butlast (lastChanges st)\<rparr>)
       = (map (\<lambda>h. Fetch (PostAssign mon d r h (undoMax pf field))) (take (Suc k) hs)
            @ [Show (replayFailure (rs k))], st2, False)"
    by (metis add_0)
  then show ?thesis
    using cs assms(2) by (simp add: undoLastChange_def popChange_def)
qed


text \<open>
  C7. On a log that is not empty, undo removes the last change, and the log stays
  without it whatever the backend answers. For an assign record it sends one unassign
  of the same month, date and resident; for a move record one move with source and
  target exchanged; for an unassign record one assign for each hospital of the record,
  in the record's order: all of them when every reply is OK, and up to the first reply
  that is not OK otherwise, after which the failure is shown and nothing more is sent.
\<close>

theorem undo_inverse:
  assumes "lastChanges st \<noteq> []" and "undoLastChange pf st field rs = (evs, st')"
  shows "lastChanges st' = butlast (lastChanges st) \<and>
    (\<forall>mon d r h. last (lastChanges st) = Assign mon d r h \<longrightarrow>
        requestsOf evs = [PostUnassign mon d r]) \<and>
    (\<forall>mon r fd fh td th. last (lastChanges st) = Move mon r fd fh td th \<longrightarrow>
        requestsOf evs = [PostMove mon r td (Some th) fd fh (undoMax pf field)]) \<and>
    (\<forall>mon d r hs. last (lastChanges st) = Unassign mon d r hs \<longrightarrow>
        ((\<forall>j < length hs. isOk (rs j)) \<longrightarrow>
           evs = map (\<lambda>h. Fetch (PostAssign mon d r h (undoMax pf field))) hs
                 @ [Show ReassignDone]) \<and>
        (\<forall>k < length hs. (\<forall>j < k. isOk (rs j)) \<and> \<not> isOk (rs k) \<longrightarrow>
           evs = map (\<lambda>h. Fetch (PostAssign mon d r h (undoMax pf field))) (take (Suc k) hs)
                 @ [Show (replayFailure (rs k))]))"
proof -
  have evs: "evs = fst (undoLastChange pf st field rs)" by (simp add: assms(2))
  have a: "lastChanges st' = butlast (lastChanges st)"
    by (rule undo_log [OF assms])
  have b: "last (lastChanges st) = Assign mon d r h \<longrightarrow> requestsOf evs = [PostUnassign mon d r]"
    for mon d r h
    unfolding evs using undo_assign [OF assms(1), of mon d r h pf field rs] by simp
  have c: "last (lastChanges st) = Move mon r fd fh td th \<longrightarrow>
      requestsOf evs = [PostMove mon r td (Some th) fd fh (undoMax pf field)]"
    for mon r fd fh td th
    unfolding evs using undo_move [OF assms(1), of mon r fd fh td th pf field rs] by simp
  have d1: "last (lastChanges st) = Unassign mon d r hs \<longrightarrow>
      (\<forall>j < length hs. isOk (rs j)) \<longrightarrow>
      evs = map (\<lambda>h. Fetch (PostAssign mon d r h (undoMax pf field))) hs @ [Show ReassignDone]"
    for mon d r hs
    unfolding evs using undo_unassign_ok [OF assms(1), of mon d r hs rs pf field] by simp
  have d2: "last (lastChanges st) = Unassign mon d r hs \<longrightarrow>
      (\<forall>k < length hs. (\<forall>j < k. isOk (rs j)) \<and> \<not> isOk (rs k) \<longrightarrow>
         evs = map (\<lambda>h. Fetch (PostAssign mon d r h (undoMax pf field))) (take (Suc k) hs)
               @ [Show (replayFailure (rs k))])"
    for mon d r hs
    unfolding evs using undo_unassign_fail [OF assms(1), of mon d r hs _ rs pf field] by simp
  show ?thesis
    using a b c d1 d2 by simp
qed

theorem undo_inverse_witness:
  "lastChanges loggedState \<noteq> [] \<and>
   undoLastChange samplePlatform loggedState None secondFails =
     ([Fetch (PostAssign ''2024-01'' ''2024-01-03'' ''Sato'' ''General'' (Some 2)),
       Fetch (PostAssign ''2024-01'' ''2024-01-03'' ''Sato'' ''North'' (Some 2)),
       Show (ReassignFailed ''full'')],
      fullState\<lparr>lastChanges :=
        [Move ''2024-01'' ''Abe'' ''2024-01-09'' (Some ''North'') ''2024-01-10'' ''South'']\<rparr>) \<and>
   requestsOf (fst (undoLastChange samplePlatform
      (fullState\<lparr>lastChanges :=
        [Move ''2024-01'' ''Abe'' ''2024-01-09'' (Some ''North'') ''2024-01-10'' ''South'']\<rparr>)
      None secondFails))
     = [PostMove ''2024-01'' ''Abe'' ''2024-01-10'' (Some ''South'') ''2024-01-09'' (Some ''North'')
          (Some 2)]"
  using undo_inverse [of loggedState samplePlatform None secondFails
      "[Fetch (PostAssign ''2024-01'' ''2024-01-03'' ''Sato'' ''General'' (Some 2)),
        Fetch (PostAssign ''2024-01'' ''2024-01-03'' ''Sato'' ''North'' (Some 2)),
        Show (ReassignFailed ''full'')]"
      "fullState\<lparr>lastChanges :=
        [Move ''2024-01'' ''Abe'' ''2024-01-09'' (Some ''North'') ''2024-01-10'' ''South'']\<rparr>"]
  by (simp add: undoLastChange_def popChange_def loggedState_def threeHospitals_def
      secondFails_def undoMax_def applyResult_def fullState_def)

section \<open>Candidates and remaining counts\<close>

lemma modalCandidates_set:
  "((h, n) \<in> set (modalCandidates cfg pf sched hol d hs)) =
   (h \<in> set hs \<and> h \<noteq> [] \<and> n = remaining cfg pf sched hol h d \<and> 0 < n)"
  by (induction hs) (auto simp: Let_def)

lemma dropCandidates_set:
  "((h, n) \<in> set (dropCandidates cfg pf sched hol d r hs)) =
   (h \<in> set hs \<and> n = remaining cfg pf sched hol h d \<and>
    (0 < n \<or> r \<in> set (assignedArr sched d h)))"
  by (induction hs) (auto simp: Let_def)

lemma fetchSchedule_cfg:
  "fetchSchedule st m r = (c, evs, st1) \<Longrightarrow> currentCfg st1 = currentCfg st"
  by (auto simp: fetchSchedule_def split: option.splits reply.splits)

lemma openAssignModal_result:
  "openAssignModal pf st d r mon sr hr = (evs, st1, Some (cands, ahs)) \<Longrightarrow>
   cands = modalCandidates (currentCfg st) pf (scheduleCache st1 mon) (hr = Ok True) d
             (hospitalsFor (currentCfg st) (scheduleCache st1 mon)) \<and>
   ahs = assignedHospitalsOf (scheduleCache st1 mon) d r"
  by (auto simp: openAssignModal_def Let_def split: prod.splits if_splits
      dest: fetchSchedule_cfg)

lemma calendarDrop_result:
  "calendarDrop pf st mon d ng raw sr hr = (evs, st1, Some cands) \<Longrightarrow>
   \<exists>meta. raw = Some meta \<and>
     cands = dropCandidates (currentCfg st) pf (scheduleCache st1 mon) (hr = Ok True) d
               (dm_resident meta) (hospitalsFor (currentCfg st) (scheduleCache st1 mon))"
  by (auto simp: calendarDrop_def Let_def split: prod.splits if_splits option.splits
      dest: fetchSchedule_cfg)

lemma remaining_is_spec: "remaining cfg pf sched holiday h d = remaining_spec cfg pf sched holiday h d"
  by (auto simp: remaining_def remaining_spec_def isWeekend_def Let_def)

lemma highlightRemaining_is_spec:
  "highlightRemaining cfg pf sched h d = remaining_spec cfg pf sched False h d"
  by (auto simp: highlightRemaining_def remaining_spec_def isWeekend_def Let_def)

lemma highlightPreviewTargets_marks:
  assumes "highlightPreviewTargets pf st mon r rr cells = (evs, st1, marks)"
  shows "(\<forall>q \<in> set (requestsOf evs). q = GetResidents mon) \<and> length marks = length cells \<and>
    (\<forall>i < length cells. marks ! i = PreviewDropTarget \<longrightarrow>
       0 < remaining_spec (currentCfg st) pf (scheduleCache st mon) False
             (snd (cells ! i)) (fst (cells ! i)))"
proof -
  obtain rs ev1 st1' where f: "fetchResidents st mon rr = (rs, ev1, st1')"
    by (cases "fetchResidents st mon rr") auto
  note k = fetchResidents_keeps [OF f]
  have ev: "evs = ev1" and m: "\<exists>ng. marks = map (highlightCell (currentCfg st) pf (scheduleCache st mon) ng) cells"
    using assms f k by (auto simp: highlightPreviewTargets_def Let_def)
  have req: "\<forall>q \<in> set (requestsOf evs). q = GetResidents mon"
    using fetchResidents_requests [OF f] ev by blast
  from m obtain ng where marks: "marks = map (highlightCell (currentCfg st) pf (scheduleCache st mon) ng) cells"
    by blast
  have cell: "0 < remaining_spec (currentCfg st) pf (scheduleCache st mon) False (snd c) (fst c)"
    if "highlightCell (currentCfg st) pf (scheduleCache st mon) ng c = PreviewDropTarget" for c
    using that by (cases c) (auto simp: highlightCell_def highlightRemaining_is_spec split: if_splits)
  show ?thesis
    using req cell by (simp add: marks)
qed

text \<open>
  C3, as the specification words it, fails at the highlight of the preview table: on a
  Monday that is a holiday the university hospital with no place of its own has 4
  places left by the rule, and none by the highlight, which leaves the cell unmarked.
\<close>

theorem highlight_ignores_holiday:
  "getDay samplePlatform ''2024-01-08'' = 1 \<and>
   remaining_spec universityCfg samplePlatform None True universityHospital ''2024-01-08'' = 4 \<and>
   highlightRemaining universityCfg samplePlatform None universityHospital ''2024-01-08'' = 0 \<and>
   highlightCell universityCfg samplePlatform None [] (''2024-01-08'', universityHospital) = Unmarked \<and>
   highlightPreviewTargets samplePlatform universityState ''2024-01'' ''Abe'' (Ok [])
       [(''2024-01-08'', universityHospital)]
     = ([Fetch (GetResidents ''2024-01'')],
        universityState\<lparr>residentsCache := [''2024-01'' \<mapsto> []]\<rparr>, [Unmarked])"
  by (simp add: remaining_spec_def highlightRemaining_def highlightCell_def universityCfg_def
      highlightPreviewTargets_def fetchResidents_def universityState_def emptyState_def
      samplePlatform_def capacityOf_def cfgOf_def assignedArr_def dayAssign_def isWeekend_def
      String_nat_digit universityHospital_def Let_def)

text \<open>
  C3, amended. In the assign dialog and at a drop on the calendar, the remaining count
  of a hospital is its capacity, plus 4 when it is the university hospital and the date
  is a Saturday, a Sunday or a date the holiday lookup answered to be a holiday, minus
  the number of residents the cached schedule lists for the hospital on the date. The
  highlight of the preview table does not look the holiday up: there the 4 are added on
  Saturdays and Sundays only, and a cell is marked as a target when that count is
  positive.
\<close>

theorem remaining_at_sites:
  "remaining cfg pf sched holiday h d = remaining_spec cfg pf sched holiday h d \<and>
   (\<forall>evs st1 cands ahs. openAssignModal pf st d r mon sr hr = (evs, st1, Some (cands, ahs)) \<longrightarrow>
      (\<forall>n. (h, n) \<in> set cands \<longrightarrow>
         n = remaining_spec (currentCfg st) pf (scheduleCache st1 mon) (hr = Ok True) h d)) \<and>
   (\<forall>evs st1 cands. calendarDrop pf st mon d ng raw sr hr = (evs, st1, Some cands) \<longrightarrow>
      (\<forall>n. (h, n) \<in> set cands \<longrightarrow>
         n = remaining_spec (currentCfg st) pf (scheduleCache st1 mon) (hr = Ok True) h d)) \<and>
   highlightRemaining cfg pf sched h d = remaining_spec cfg pf sched False h d \<and>
   (highlightCell cfg pf sched ngDates (d, h) = PreviewDropTarget) =
     (d \<noteq> [] \<and> h \<noteq> [] \<and> d \<notin> set ngDates \<and> 0 < remaining_spec cfg pf sched False h d) \<and>
   (\<forall>evs st1 marks. highlightPreviewTargets pf st mon r rr cells = (evs, st1, marks) \<longrightarrow>
      (\<forall>q \<in> set (requestsOf evs). q = GetResidents mon) \<and> length marks = length cells \<and>
      (\<forall>i < length cells. marks ! i = PreviewDropTarget \<longrightarrow>
         0 < remaining_spec (currentCfg st) pf (scheduleCache st mon) False
               (snd (cells ! i)) (fst (cells ! i))))"
proof -
  have dialog: "n = remaining_spec (currentCfg st) pf (scheduleCache st1 mon) (hr = Ok True) h d"
    if "openAssignModal pf st d r mon sr hr = (evs, st1, Some (cands, ahs))" "(h, n) \<in> set cands"
    for evs st1 cands ahs n
    using openAssignModal_result [OF that(1)] that(2)
    by (simp add: modalCandidates_set remaining_is_spec)
  have drop: "n = remaining_spec (currentCfg st) pf (scheduleCache st1 mon) (hr = Ok True) h d"
    if "calendarDrop pf st mon d ng raw sr hr = (evs, st1, Some cands)" "(h, n) \<in> set cands"
    for evs st1 cands n
    using calendarDrop_result [OF that(1)] that(2)
    by (auto simp: dropCandidates_set remaining_is_spec)
  have cell: "(highlightCell cfg pf sched ngDates (d, h) = PreviewDropTarget) =
     (d \<noteq> [] \<and> h \<noteq> [] \<and> d \<notin> set ngDates \<and> 0 < remaining_spec cfg pf sched False h d)"
    by (simp add: highlightCell_def highlightRemaining_is_spec)
  have marks: "(\<forall>q \<in> set (requestsOf evs). q = GetResidents mon) \<and> length marks = length cells \<and>
      (\<forall>i < length cells. marks ! i = PreviewDropTarget \<longrightarrow>
         0 < remaining_spec (currentCfg st) pf (scheduleCache st mon) False
               (snd (cells ! i)) (fst (cells ! i)))"
    if "highlightPreviewTargets pf st mon r rr cells = (evs, st1, marks)" for evs st1 marks
    by (rule highlightPreviewTargets_marks [OF that])
  have sites: "remaining cfg pf sched holiday h d = remaining_spec cfg pf sched holiday h d"
    "highlightRemaining cfg pf sched h d = remaining_spec cfg pf sched False h d"
    by (rule remaining_is_spec, rule highlightRemaining_is_spec)
  show ?thesis
    using dialog drop cell marks sites by blast
qed


theorem remaining_at_sites_witness:
  "openAssignModal samplePlatform universityState ''2024-01-06'' ''Abe'' ''2024-01''
       (NotOk ''503'') (Ok False)
     = ([Fetch (GetSchedule ''2024-01''), Show (ScheduleFetchError ''503''),
         Fetch (GetIsHoliday ''2024-01-06'')],
        universityState\<lparr>scheduleCache := [''2024-01'' \<mapsto> ErrorSnapshot]\<rparr>,
        Some ([(universityHospital, 5)], [])) \<and>
   remaining_spec universityCfg samplePlatform (Some ErrorSnapshot) False universityHospital
       ''2024-01-06'' = 1 + 4 - 0 \<and>
   highlightPreviewTargets samplePlatform universityState ''2024-01'' ''Abe'' (Ok [])
       [(''2024-01-06'', universityHospital)]
     = ([Fetch (GetResidents ''2024-01'')],
        universityState\<lparr>residentsCache := [''2024-01'' \<mapsto> []]\<rparr>, [PreviewDropTarget])"
  using remaining_at_sites [of universityCfg samplePlatform None False universityHospital
      "''2024-01-06''" universityState "''Abe''" "''2024-01''" "NotOk ''503''" "Ok False"
      False None "[]" "Ok []" "[(''2024-01-06'', universityHospital)]"]
  by (simp add: openAssignModal_def fetchSchedule_def universityState_def emptyState_def
      hospitalsFor_def schedHospitals_def universityCfg_def remaining_def remaining_spec_def
      highlightCell_def highlightRemaining_def assignedHospitalsOf_def
      highlightPreviewTargets_def fetchResidents_def
      samplePlatform_def capacityOf_def cfgOf_def assignedArr_def dayAssign_def isWeekend_def
      String_nat_digit universityHospital_def Let_def)

text \<open>
  C2, as the specification words it, fails in the assign dialog: Sato holds the only
  place of the hospital on the 3rd, so nothing remains there, and the dialog opens with
  no candidate (and with the delete button for that hospital).
\<close>

theorem dialog_omits_held_hospital:
  "''Sato'' \<in> set (assignedArr (scheduleCache fullState ''2024-01'') ''2024-01-03'' ''General'') \<and>
   remaining (currentCfg fullState) samplePlatform (scheduleCache fullState ''2024-01'') False
       ''General'' ''2024-01-03'' = 0 \<and>
   openAssignModal samplePlatform fullState ''2024-01-03'' ''Sato'' ''2024-01''
       (Threw ''x'') (Ok False)
     = ([Fetch (GetIsHoliday ''2024-01-03'')], fullState, Some ([], [''General'']))"
  by (simp add: openAssignModal_def fetchSchedule_def fullState_def fullSchedule_def
      hospitalsFor_def schedHospitals_def remaining_def assignedHospitalsOf_def
      samplePlatform_def capacityOf_def cfgOf_def assignedArr_def dayAssign_def isWeekend_def
      universityHospital_def Let_def)

text \<open>
  C2, amended. The chooser of a drop on the calendar offers a hospital of the list
  exactly when its remaining count is positive or the dragged resident is already
  listed for it on the date, so a hospital the resident holds is offered also with
  nothing remaining. The assign dialog offers a hospital of the list exactly when its
  name is not empty and its remaining count is positive; the hospitals the resident
  holds on the date are collected apart, for the delete button.
\<close>

theorem candidate_hospitals:
  "(\<forall>evs st1 cands. calendarDrop pf st mon d ng raw sr hr = (evs, st1, Some cands) \<longrightarrow>
      (\<exists>meta. raw = Some meta \<and>
        (\<forall>h n. ((h, n) \<in> set cands) =
           (h \<in> set (hospitalsFor (currentCfg st) (scheduleCache st1 mon)) \<and>
            n = remaining (currentCfg st) pf (scheduleCache st1 mon) (hr = Ok True) h d \<and>
            (0 < n \<or> dm_resident meta \<in> set (assignedArr (scheduleCache st1 mon) d h)))))) \<and>
   (\<forall>evs st1 cands ahs. openAssignModal pf st d r mon sr hr = (evs, st1, Some (cands, ahs)) \<longrightarrow>
      (\<forall>h n. ((h, n) \<in> set cands) =
         (h \<in> set (hospitalsFor (currentCfg st) (scheduleCache st1 mon)) \<and> h \<noteq> [] \<and>
          n = remaining (currentCfg st) pf (scheduleCache st1 mon) (hr = Ok True) h d \<and>
          0 < n)) \<and>
      ahs = assignedHospitalsOf (scheduleCache st1 mon) d r)"
proof -
  have drop: "\<exists>meta. raw = Some meta \<and>
        (\<forall>h n. ((h, n) \<in> set cands) =
           (h \<in> set (hospitalsFor (currentCfg st) (scheduleCache st1 mon)) \<and>
            n = remaining (currentCfg st) pf (scheduleCache st1 mon) (hr = Ok True) h d \<and>
            (0 < n \<or> dm_resident meta \<in> set (assignedArr (scheduleCache st1 mon) d h))))"
    if "calendarDrop pf st mon d ng raw sr hr = (evs, st1, Some cands)" for evs st1 cands
    using calendarDrop_result [OF that] by (auto simp: dropCandidates_set)
  have dialog: "(\<forall>h n. ((h, n) \<in> set cands) =
         (h \<in> set (hospitalsFor (currentCfg st) (scheduleCache st1 mon)) \<and> h \<noteq> [] \<and>
          n = remaining (currentCfg st) pf (scheduleCache st1 mon) (hr = Ok True) h d \<and>
          0 < n)) \<and>
      ahs = assignedHospitalsOf (scheduleCache st1 mon) d r"
    if "openAssignModal pf st d r mon sr hr = (evs, st1, Some (cands, ahs))" for evs st1 cands ahs
    using openAssignModal_result [OF that] by (simp add: modalCandidates_set)
  show ?thesis
    using drop dialog by blast
qed

theorem candidate_hospitals_witness:
  "calendarDrop samplePlatform highlightedState ''2024-01'' ''2024-01-03'' False
       (Some satoFromSecond) (Threw ''x'') (Ok False)
     = ([Fetch (GetIsHoliday ''2024-01-03'')], highlightedState, Some [(''General'', 0)]) \<and>
   openAssignModal samplePlatform highlightedState ''2024-01-02'' ''Sato'' ''2024-01''
       (Threw ''x'') (Ok False)
     = ([Fetch (GetIsHoliday ''2024-01-02'')], highlightedState, Some ([(''General'', 2)], []))"
  using candidate_hospitals [of samplePlatform highlightedState "''2024-01''" "''2024-01-03''"
      False "Some satoFromSecond" "Threw ''x''" "Ok False" "''Sato''"]
  by (simp add: calendarDrop_def openAssignModal_def fetchSchedule_def fullState_def
      fullSchedule_def highlightedState_def satoFromSecond_def
      hospitalsFor_def schedHospitals_def remaining_def assignedHospitalsOf_def
      samplePlatform_def capacityOf_def cfgOf_def assignedArr_def dayAssign_def isWeekend_def
      String_nat_digit universityHospital_def Let_def)

section \<open>Moves refused before any request\<close>

text \<open>
  C6, as the specification words it, fails on the calendar. Sato is dragged from the
  second hospital of the 3rd onto the 3rd, which is not an NG date, and the first
  hospital has a place left there: source and target differ, yet the drop is refused as
  a move to the same day. And a drop refused for want of a free place comes after the
  holiday lookup has been sent.
\<close>

theorem same_day_move_refused:
  "''2024-01-03'' \<notin> set [''2024-01-05''] \<and>
   (from_date satoAtNorth, from_hospital satoAtNorth) \<noteq> (''2024-01-03'', Some ''General'') \<and>
   remaining (currentCfg twoState) samplePlatform (scheduleCache twoState ''2024-01'') False
       ''General'' ''2024-01-03'' = 1 \<and>
   calendarDrop samplePlatform twoState ''2024-01'' ''2024-01-03'' False (Some satoAtNorth)
       (Threw ''x'') (Ok False) = ([Show SameDay], twoState, None) \<and>
   calendarDrop samplePlatform twoState ''2024-01'' ''2024-01-02'' False (Some satoAtNorth)
       (Threw ''x'') (Ok False)
     = ([Fetch (GetIsHoliday ''2024-01-02''), Show NoFreeSlot], twoState, None)"
  by (simp add: calendarDrop_def fetchSchedule_def twoState_def twoHospitals_def satoAtNorth_def
      hospitalsFor_def schedHospitals_def remaining_def 
      samplePlatform_def capacityOf_def cfgOf_def assignedArr_def dayAssign_def isWeekend_def
      String_nat_digit universityHospital_def Let_def)

lemma calendarDrop_ng:
  "residentHighlight st = Some hl \<Longrightarrow> ng \<or> d \<in> set (hl_ng_dates hl) \<Longrightarrow>
   calendarDrop pf st mon d ng raw sr hr = ([Show NgDrop], st, None)"
  by (simp add: calendarDrop_def)

lemma calendarDrop_same_day:
  "residentHighlight st = Some hl \<Longrightarrow> \<not> ng \<Longrightarrow> d \<notin> set (hl_ng_dates hl) \<Longrightarrow>
   raw = Some meta \<Longrightarrow> from_date meta = d \<Longrightarrow>
   calendarDrop pf st mon d ng raw sr hr = ([Show SameDay], st, None)"
  by (simp add: calendarDrop_def)

lemma calendarDrop_offers:
  assumes "residentHighlight st = Some hl" "\<not> ng" "d \<notin> set (hl_ng_dates hl)"
    "raw = Some meta" "from_date meta \<noteq> d"
    "calendarDrop pf st mon d ng raw sr hr = (evs, st1, res)"
    "h \<in> set (hospitalsFor (currentCfg st) (scheduleCache st1 mon))"
    "0 < remaining (currentCfg st) pf (scheduleCache st1 mon) (hr = Ok True) h d
     \<or> dm_resident meta \<in> set (assignedArr (scheduleCache st1 mon) d h)"
  shows "\<exists>cands. res = Some cands \<and>
     (h, remaining (currentCfg st) pf (scheduleCache st1 mon) (hr = Ok True) h d) \<in> set cands"
proof -
  obtain c ev1 st1' where f: "fetchSchedule st mon sr = (c, ev1, st1')"
    by (cases "fetchSchedule st mon sr") auto
  have cfg: "currentCfg st1' = currentCfg st" by (rule fetchSchedule_cfg [OF f])
  let ?cands = "dropCandidates (currentCfg st) pf (scheduleCache st1' mon) (hr = Ok True) d
      (dm_resident meta) (hospitalsFor (currentCfg st) (scheduleCache st1' mon))"
  have st1: "st1 = st1'"
    using assms(1-6) f by (auto simp: calendarDrop_def Let_def split: if_splits)
  have mem: "(h, remaining (currentCfg st) pf (scheduleCache st1 mon) (hr = Ok True) h d) \<in> set ?cands"
    using assms(7,8) by (simp add: dropCandidates_set st1)
  then have ne: "?cands \<noteq> []" by auto
  have "res = Some ?cands"
    using assms(1-6) f ne cfg by (auto simp: calendarDrop_def Let_def split: if_splits)
  with mem show ?thesis by simp
qed

lemma moveClick_first:
  "hd (fst (moveClick pf st field mon meta d h mr)) =
     Fetch (PostMove mon (dm_resident meta) (from_date meta) (from_hospital meta) d (Some h)
              (Some (uiMax pf field)))"
  by (simp add: moveClick_def Let_def split: reply.splits)

lemma tableDropWith_same_place:
  "currentDragMeta st = Some meta \<Longrightarrow> from_date meta = d \<Longrightarrow> from_hospital meta = Some h \<Longrightarrow>
   tableDropWith binding pf st field mon d h rr hr mr = ([Show SamePlace], st)"
  by (simp add: tableDropWith_def)

lemma tableDropWith_ng:
  assumes "currentDragMeta st = Some meta" "\<not> (from_date meta = d \<and> from_hospital meta = Some h)"
    "fetchResidents st mon rr = (Some l, ev1, st1)"
    "find (\<lambda>r. name r = dm_resident meta) l = Some f" "d \<in> set (ng_dates f)"
  shows "tableDropWith binding pf st field mon d h rr hr mr = (ev1 @ [Show NgDrop], st1) \<and>
     lastChanges st1 = lastChanges st \<and> scheduleCache st1 = scheduleCache st \<and>
     (\<forall>q \<in> set (requestsOf ev1). \<not> isMutation q)"
  using assms fetchResidents_keeps [OF assms(3)]
  by (auto simp: tableDropWith_def Let_def isMutation_def dest: fetchResidents_requests)


text \<open>
  C6, amended. On the calendar a drop sends no mutation, leaves the change log as it
  is and alters no schedule that is cached (with the month cached, the whole state is
  left as it is). It is refused at once when the date is an NG date of the resident
  shown, or when the source date is the target date, whatever the hospitals. A hospital
  is offered by the chooser only when its remaining count is positive or the dragged
  resident is listed for it on the date. A drop that is not refused for the date offers
  every hospital of the list that has a place left or that the resident holds, and the
  click on it sends the move request first. On the table a drop whose source date and
  hospital are the target's is refused at once, and so is, after the residents are
  looked up, a drop on an NG date of the dragged resident; neither sends a mutation or
  touches the change log or the schedule cache.
\<close>

theorem move_refused_locally:
  "(\<forall>hl. residentHighlight st = Some hl \<and> (ng \<or> d \<in> set (hl_ng_dates hl)) \<longrightarrow>
      calendarDrop pf st mon d ng raw sr hr = ([Show NgDrop], st, None)) \<and>
   (\<forall>hl meta. residentHighlight st = Some hl \<and> \<not> ng \<and> d \<notin> set (hl_ng_dates hl) \<and>
        raw = Some meta \<and> from_date meta = d \<longrightarrow>
      calendarDrop pf st mon d ng raw sr hr = ([Show SameDay], st, None)) \<and>
   (\<forall>evs st1 res. calendarDrop pf st mon d ng raw sr hr = (evs, st1, res) \<longrightarrow>
      lastChanges st1 = lastChanges st \<and>
      (\<forall>m c. scheduleCache st m = Some c \<longrightarrow> scheduleCache st1 m = Some c) \<and>
      (scheduleCache st mon \<noteq> None \<longrightarrow> st1 = st) \<and>
      (\<forall>q \<in> set (requestsOf evs). \<not> isMutation q) \<and>
      (\<forall>cands meta h n. res = Some cands \<and> raw = Some meta \<and> (h, n) \<in> set cands \<longrightarrow>
         n = remaining (currentCfg st) pf (scheduleCache st1 mon) (hr = Ok True) h d \<and>
         (0 < n \<or> dm_resident meta \<in> set (assignedArr (scheduleCache st1 mon) d h)))) \<and>
   (\<forall>hl meta evs st1 res. residentHighlight st = Some hl \<and> \<not> ng \<and> d \<notin> set (hl_ng_dates hl) \<and>
        raw = Some meta \<and> from_date meta \<noteq> d \<and>
        calendarDrop pf st mon d ng raw sr hr = (evs, st1, res) \<and>
        h \<in> set (hospitalsFor (currentCfg st) (scheduleCache st1 mon)) \<and>
        (0 < remaining (currentCfg st) pf (scheduleCache st1 mon) (hr = Ok True) h d
         \<or> dm_resident meta \<in> set (assignedArr (scheduleCache st1 mon) d h)) \<longrightarrow>
      (\<exists>cands. res = Some cands \<and>
         (h, remaining (currentCfg st) pf (scheduleCache st1 mon) (hr = Ok True) h d) \<in> set cands) \<and>
      hd (fst (moveClick pf st1 field mon meta d h mr)) =
        Fetch (PostMove mon (dm_resident meta) (from_date meta) (from_hospital meta) d (Some h)
                 (Some (uiMax pf field)))) \<and>
   (\<forall>meta. currentDragMeta st = Some meta \<and> from_date meta = d \<and> from_hospital meta = Some h \<longrightarrow>
      tableDropWith binding pf st field mon d h rr hr mr = ([Show SamePlace], st)) \<and>
   (\<forall>meta l ev1 st1 f. currentDragMeta st = Some meta \<and>
        \<not> (from_date meta = d \<and> from_hospital meta = Some h) \<and>
        fetchResidents st mon rr = (Some l, ev1, st1) \<and>
        find (\<lambda>r. name r = dm_resident meta) l = Some f \<and> d \<in> set (ng_dates f) \<longrightarrow>
      tableDropWith binding pf st field mon d h rr hr mr = (ev1 @ [Show NgDrop], st1) \<and>
      lastChanges st1 = lastChanges st \<and> scheduleCache st1 = scheduleCache st \<and>
      (\<forall>q \<in> set (requestsOf ev1). \<not> isMutation q))"
proof (intro conjI allI impI)
  fix hl
  assume "residentHighlight st = Some hl \<and> (ng \<or> d \<in> set (hl_ng_dates hl))"
  then show "calendarDrop pf st mon d ng raw sr hr = ([Show NgDrop], st, None)"
    using calendarDrop_ng by blast
next
  fix hl meta
  assume "residentHighlight st = Some hl \<and> \<not> ng \<and> d \<notin> set (hl_ng_dates hl) \<and>
        raw = Some meta \<and> from_date meta = d"
  then show "calendarDrop pf st mon d ng raw sr hr = ([Show SameDay], st, None)"
    using calendarDrop_same_day by blast
next
  fix evs st1 res
  assume a: "calendarDrop pf st mon d ng raw sr hr = (evs, st1, res)"
  note k = calendarDrop_keeps [OF a]
  show "lastChanges st1 = lastChanges st" using k by blast
  show "scheduleCache st1 m = Some c" if "scheduleCache st m = Some c" for m c
    using k that by blast
  show "st1 = st" if "scheduleCache st mon \<noteq> None" using k that by blast
  show "\<forall>q \<in> set (requestsOf evs). \<not> isMutation q" using k by blast
  fix cands meta h n
  assume b: "res = Some cands \<and> raw = Some meta \<and> (h, n) \<in> set cands"
  with calendarDrop_result [of pf st mon d ng raw sr hr evs st1 cands] a
  have "(h, n) \<in> set (dropCandidates (currentCfg st) pf (scheduleCache st1 mon) (hr = Ok True) d
               (dm_resident meta) (hospitalsFor (currentCfg st) (scheduleCache st1 mon)))"
    by auto
  then show "n = remaining (currentCfg st) pf (scheduleCache st1 mon) (hr = Ok True) h d"
    and "0 < n \<or> dm_resident meta \<in> set (assignedArr (scheduleCache st1 mon) d h)"
    by (auto simp: dropCandidates_set)
next
  fix hl meta evs st1 res
  assume a: "residentHighlight st = Some hl \<and> \<not> ng \<and> d \<notin> set (hl_ng_dates hl) \<and>
        raw = Some meta \<and> from_date meta \<noteq> d \<and>
        calendarDrop pf st mon d ng raw sr hr = (evs, st1, res) \<and>
        h \<in> set (hospitalsFor (currentCfg st) (scheduleCache st1 mon)) \<and>
        (0 < remaining (currentCfg st) pf (scheduleCache st1 mon) (hr = Ok True) h d
         \<or> dm_resident meta \<in> set (assignedArr (scheduleCache st1 mon) d h))"
  then show "\<exists>cands. res = Some cands \<and>
         (h, remaining (currentCfg st) pf (scheduleCache st1 mon) (hr = Ok True) h d) \<in> set cands"
    using calendarDrop_offers [of st hl ng d raw meta pf mon sr hr evs st1 res h] by blast
  show "hd (fst (moveClick pf st1 field mon meta d h mr)) =
        Fetch (PostMove mon (dm_resident meta) (from_date meta) (from_hospital meta) d (Some h)
                 (Some (uiMax pf field)))"
    by (rule moveClick_first)
next
  fix meta
  assume "currentDragMeta st = Some meta \<and> from_date meta = d \<and> from_hospital meta = Some h"
  then show "tableDropWith binding pf st field mon d h rr hr mr = ([Show SamePlace], st)"
    using tableDropWith_same_place by blast
next
  fix meta l ev1 st1 f
  assume a: "currentDragMeta st = Some meta \<and>
        \<not> (from_date meta = d \<and> from_hospital meta = Some h) \<and>
        fetchResidents st mon rr = (Some l, ev1, st1) \<and>
        find (\<lambda>r. name r = dm_resident meta) l = Some f \<and> d \<in> set (ng_dates f)"
  then have n: "tableDropWith binding pf st field mon d h rr hr mr = (ev1 @ [Show NgDrop], st1) \<and>
     lastChanges st1 = lastChanges st \<and> scheduleCache st1 = scheduleCache st \<and>
     (\<forall>q \<in> set (requestsOf ev1). \<not> isMutation q)"
    using tableDropWith_ng [of st meta d h mon rr l ev1 st1 f binding pf field hr mr] by blast
  from n show "tableDropWith binding pf st field mon d h rr hr mr = (ev1 @ [Show NgDrop], st1)"
    by blast
  from n show "lastChanges st1 = lastChanges st" by blast
  from n show "scheduleCache st1 = scheduleCache st" by blast
  from n show "\<forall>q \<in> set (requestsOf ev1). \<not> isMutation q" by blast
qed


theorem move_refused_locally_witness:
  "calendarDrop samplePlatform twoState ''2024-01'' ''2024-01-05'' False (Some satoFromSecond)
       (Threw ''x'') (Ok False) = ([Show NgDrop], twoState, None) \<and>
   calendarDrop samplePlatform twoState ''2024-01'' ''2024-01-03'' False (Some satoFromSecond)
       (Threw ''x'') (Ok False)
     = ([Fetch (GetIsHoliday ''2024-01-03'')], twoState, Some [(''General'', 1), (''North'', 0)]) \<and>
   fst (moveClick samplePlatform twoState None ''2024-01'' satoFromSecond ''2024-01-03''
          ''General'' (Ok None))
     = [Fetch (PostMove ''2024-01'' ''Sato'' ''2024-01-02'' (Some ''General'') ''2024-01-03''
                 (Some ''General'') (Some 2)), Show Moved] \<and>
   tableDropWith None samplePlatform tableState None ''2024-01'' ''2024-01-02'' ''General''
       (Ok []) (Ok False) (Ok None) = ([Show SamePlace], tableState) \<and>
   tableDropWith None samplePlatform tableState None ''2024-01'' ''2024-01-05'' ''General''
       (Ok []) (Ok False) (Ok None) = ([Show NgDrop], tableState)"
proof -
  have hl: "residentHighlight twoState
      = Some \<lparr>hl_name = ''Sato'', hl_month = ''2024-01'', hl_ng_dates = [''2024-01-05'']\<rparr>"
    by (simp add: twoState_def)
  have "\<forall>hl. residentHighlight twoState = Some hl \<and> (False \<or> ''2024-01-05'' \<in> set (hl_ng_dates hl)) \<longrightarrow>
      calendarDrop samplePlatform twoState ''2024-01'' ''2024-01-05'' False (Some satoFromSecond)
        (Threw ''x'') (Ok False) = ([Show NgDrop], twoState, None)"
    using move_refused_locally [of twoState False "''2024-01-05''" samplePlatform "''2024-01''"
      "Some satoFromSecond" "Threw ''x''" "Ok False" "''General''" None "Ok None" None "Ok []"]
    by (rule conjunct1)
  with hl have ng: "calendarDrop samplePlatform twoState ''2024-01'' ''2024-01-05'' False
      (Some satoFromSecond) (Threw ''x'') (Ok False) = ([Show NgDrop], twoState, None)"
    by simp
  have offer: "calendarDrop samplePlatform twoState ''2024-01'' ''2024-01-03'' False
       (Some satoFromSecond) (Threw ''x'') (Ok False)
     = ([Fetch (GetIsHoliday ''2024-01-03'')], twoState, Some [(''General'', 1), (''North'', 0)])"
    by (simp add: calendarDrop_def fetchSchedule_def twoState_def twoHospitals_def
      satoFromSecond_def hospitalsFor_def schedHospitals_def remaining_def
      samplePlatform_def capacityOf_def cfgOf_def assignedArr_def dayAssign_def isWeekend_def
      universityHospital_def Let_def)
  have click: "fst (moveClick samplePlatform twoState None ''2024-01'' satoFromSecond
          ''2024-01-03'' ''General'' (Ok None))
     = [Fetch (PostMove ''2024-01'' ''Sato'' ''2024-01-02'' (Some ''General'') ''2024-01-03''
                 (Some ''General'') (Some 2)), Show Moved]"
    by (simp add: moveClick_def satoFromSecond_def uiMax_def Let_def)
  have same: "tableDropWith None samplePlatform tableState None ''2024-01'' ''2024-01-02''
       ''General'' (Ok []) (Ok False) (Ok None) = ([Show SamePlace], tableState)"
    by (simp add: tableDropWith_def tableState_def satoFromSecond_def)
  have tng: "tableDropWith None samplePlatform tableState None ''2024-01'' ''2024-01-05''
       ''General'' (Ok []) (Ok False) (Ok None) = ([Show NgDrop], tableState)"
    by (simp add: tableDropWith_def tableState_def satoFromSecond_def fetchResidents_def
        Let_def)
  show ?thesis
    using ng offer click same tng by (simp only: simp_thms)
qed

section \<open>The drop on a table cell\<close>

text \<open>
  C1 on the code: the label of Sato on the 2nd is dropped on the cell of the first
  hospital on the 3rd, which is not the source, not an NG date of Sato and has a place
  left. The handler shows the error of its \<open>catch\<close> and sends no request.
\<close>

theorem tableDrop_sends_nothing:
  "''2024-01-03'' \<notin> set [''2024-01-05''] \<and>
   (from_date satoFromSecond, from_hospital satoFromSecond) \<noteq> (''2024-01-03'', Some ''General'') \<and>
   remaining (currentCfg tableState) samplePlatform (scheduleCache tableState ''2024-01'') False
       ''General'' ''2024-01-03'' = 1 \<and>
   tableDrop samplePlatform tableState None ''2024-01'' ''2024-01-03'' ''General''
       (Ok []) (Ok False) (Ok None)
     = ([Show (MoveProcessError ''sched is not defined'')], tableState)"
  by (simp add: tableDrop_def tableDropWith_def 
      fetchResidents_def twoState_def twoHospitals_def tableState_def satoFromSecond_def
      remaining_def 
      samplePlatform_def capacityOf_def cfgOf_def assignedArr_def dayAssign_def isWeekend_def
      String_nat_digit universityHospital_def Let_def)

end
